theory Spec2Isabelle
  imports Complex_Main "HOL-Library.Option_ord" "HOL-Library.Product_Lexorder"
begin

section \<open>The transaction model of backend/models/Transaction.js\<close>

text \<open>
  The file declares one Mongoose schema with its indexes, two pre-save hooks, virtuals,
  static queries and instance methods. The embedding keeps a document as a record whose
  fields are the paths of the schema and gives the library's part in writing: the
  setters and defaults of the constructor, validation, the order of the hooks, the
  unique-index check of an insert, the stages of an aggregation. Conventions:
  \<^item> a path that may be absent is an \<open>option\<close>, and \<open>None\<close> is the absent path
    (\<open>undefined\<close>; for \<open>postedDate\<close> also its default \<open>null\<close>);
  \<^item> an ObjectId is a \<open>nat\<close>; a Date is an \<open>int\<close>, the milliseconds since the epoch;
  \<^item> a Number is a \<open>real\<close>: comparisons, \<open>Math.abs\<close> and sums are exact, the
    rounding of doubles is not modelled;
  \<^item> a string is a list of 8-bit characters; case mapping and whitespace are those of
    ASCII text;
  \<^item> the clock (\<open>new Date()\<close>, \<open>Date.now\<close>) is the argument \<open>now\<close>;
  \<^item> the fields \<open>createdAt\<close> and \<open>updatedAt\<close> of \<open>timestamps: true\<close> are left out: no
    code of the file reads them.
\<close>

subsection \<open>Strings: the setters of the schema\<close>

definition toLowerCaseChar :: "char \<Rightarrow> char" where
  "toLowerCaseChar c =
     (let n = (of_char c :: nat) in if 65 \<le> n \<and> n \<le> 90 then char_of (n + 32) else c)"

definition toUpperCaseChar :: "char \<Rightarrow> char" where
  "toUpperCaseChar c =
     (let n = (of_char c :: nat) in if 97 \<le> n \<and> n \<le> 122 then char_of (n - 32) else c)"

definition toLowerCase :: "string \<Rightarrow> string" where
  "toLowerCase s = map toLowerCaseChar s"

definition toUpperCase :: "string \<Rightarrow> string" where
  "toUpperCase s = map toUpperCaseChar s"

definition isWhiteSpace :: "char \<Rightarrow> bool" where
  "isWhiteSpace c = (let n = (of_char c :: nat) in (9 \<le> n \<and> n \<le> 13) \<or> n = 32)"

definition trim :: "string \<Rightarrow> string" where
  "trim s = rev (dropWhile isWhiteSpace (rev (dropWhile isWhiteSpace s)))"

text \<open>
  A template literal renders an absent value as the text \<open>undefined\<close>
  (\<open>`Copy of ${this.description}`\<close>, \<open>`${sign}${this.currency} ...`\<close>).
\<close>

definition templateString :: "string option \<Rightarrow> string" where
  "templateString v = (case v of None \<Rightarrow> ''undefined'' | Some s \<Rightarrow> s)"

subsection \<open>The schema (lines 3-182)\<close>

record category_t =
  primary :: "string option"
  secondary :: "string option"
  plaidCategoryId :: "string option"

record merchant_t =
  merchant_name :: "string option"
  merchant_id :: "string option"
  website :: "string option"
  logo :: "string option"

record attachment =
  filename :: "string option"
  originalName :: "string option"
  mimeType :: "string option"
  attachment_size :: "real option"
  url :: "string option"
  uploadedAt :: "int option"

record recurring_t =
  isRecurring :: bool
  frequency :: "string option"
  interval :: "real option"
  nextDueDate :: "int option"
  recurring_endDate :: "int option"
  originalTransactionId :: "nat option"

record split_entry =
  split_user :: "nat option"
  split_amount :: "real option"
  percentage :: "real option"
  split_description :: "string option"

record split_t =
  isSplit :: bool
  split_totalAmount :: "real option"
  splits :: "split_entry list"

record location_t =
  street :: "string option"
  city :: "string option"
  state :: "string option"
  zipCode :: "string option"
  country :: "string option"
  latitude :: "real option"
  longitude :: "real option"

record metadata_t =
  plaidData :: "string option"
  customFields :: "string option"
  importSource :: "string option"
  importDate :: "int option"

record transaction =
  ident :: "nat option"
  user :: "nat option"
  account :: "nat option"
  plaidTransactionId :: "string option"
  amount :: "real option"
  currency :: "string option"
  type :: "string option"
  category :: category_t
  description :: "string option"
  merchant :: merchant_t
  date :: "int option"
  postedDate :: "int option"
  status :: "string option"
  tags :: "string list"
  "notes" :: "string option"
  attachments :: "attachment list"
  recurring :: recurring_t
  split :: split_t
  location :: location_t
  metadata :: metadata_t
  isReconciled :: bool
  reconciliationDate :: "int option"
  isHidden :: bool
  isArchived :: bool

subsection \<open>Validation\<close>

text \<open>
  Mongoose validates every path and reports one error per failing path, all of them
  together in one ValidationError. On a path the \<open>required\<close> validator is the
  only one that runs on an absent value.
\<close>

datatype kind = Required | Enum | Maxlength | Min | UserDefined

type_synonym validatorError = "string \<times> kind \<times> string option"

datatype error = ValidationError "validatorError list" | DuplicateKeyError "string list"

definition requiredId :: "string \<Rightarrow> string \<Rightarrow> nat option \<Rightarrow> validatorError list" where
  "requiredId path msg v = (case v of None \<Rightarrow> [(path, Required, Some msg)] | Some _ \<Rightarrow> [])"

definition requiredDate :: "string \<Rightarrow> string \<Rightarrow> int option \<Rightarrow> validatorError list" where
  "requiredDate path msg v = (case v of None \<Rightarrow> [(path, Required, Some msg)] | Some _ \<Rightarrow> [])"

definition requiredNumber :: "string \<Rightarrow> string \<Rightarrow> real option \<Rightarrow> validatorError list" where
  "requiredNumber path msg v = (case v of None \<Rightarrow> [(path, Required, Some msg)] | Some _ \<Rightarrow> [])"

definition requiredString :: "string \<Rightarrow> string \<Rightarrow> string option \<Rightarrow> validatorError list" where
  "requiredString path msg v =
     (case v of None \<Rightarrow> [(path, Required, Some msg)]
      | Some s \<Rightarrow> if s = [] then [(path, Required, Some msg)] else [])"

definition enumOf :: "string \<Rightarrow> string list \<Rightarrow> string option \<Rightarrow> validatorError list" where
  "enumOf path values v =
     (case v of None \<Rightarrow> []
      | Some s \<Rightarrow> if s \<in> set values then [] else [(path, Enum, None)])"

definition maxlength :: "string \<Rightarrow> nat \<Rightarrow> string \<Rightarrow> string option \<Rightarrow> validatorError list" where
  "maxlength path n msg v =
     (case v of None \<Rightarrow> []
      | Some s \<Rightarrow> if length s \<le> n then [] else [(path, Maxlength, Some msg)])"

definition minOf :: "string \<Rightarrow> real \<Rightarrow> real option \<Rightarrow> validatorError list" where
  "minOf path m v =
     (case v of None \<Rightarrow> [] | Some x \<Rightarrow> if m \<le> x then [] else [(path, Min, None)])"

definition amountValidator :: "real option \<Rightarrow> validatorError list" where
  "amountValidator v =
     (case v of None \<Rightarrow> []
      | Some x \<Rightarrow> if x \<noteq> 0 then [] else [(''amount'', UserDefined, Some ''Amount cannot be zero'')])"

text \<open>The validators of one path run in order and stop at the first that fails.\<close>

definition firstError :: "validatorError list list \<Rightarrow> validatorError list" where
  "firstError vs = take 1 (concat vs)"

definition validate :: "transaction \<Rightarrow> validatorError list" where
  "validate t =
     requiredId ''user'' ''User ID is required'' (user t)
   @ requiredId ''account'' ''Account ID is required'' (account t)
   @ firstError [requiredNumber ''amount'' ''Amount is required'' (amount t),
                 amountValidator (amount t)]
   @ enumOf ''currency'' [''USD'', ''EUR'', ''GBP'', ''CAD'', ''AUD'', ''JPY'', ''CHF''] (currency t)
   @ firstError [requiredString ''type'' ''Transaction type is required'' (type t),
                 enumOf ''type'' [''income'', ''expense'', ''transfer''] (type t)]
   @ requiredString ''category.primary'' ''Primary category is required'' (primary (category t))
   @ firstError [requiredString ''description'' ''Description is required'' (description t),
                 maxlength ''description'' 200 ''Description cannot exceed 200 characters''
                   (description t)]
   @ maxlength ''merchant.name'' 100 ''Merchant name cannot exceed 100 characters''
       (merchant_name (merchant t))
   @ requiredDate ''date'' ''Transaction date is required'' (date t)
   @ enumOf ''status'' [''pending'', ''posted'', ''cancelled'', ''failed''] (status t)
   @ maxlength ''notes'' 500 ''Notes cannot exceed 500 characters'' (notes t)
   @ enumOf ''recurring.frequency'' [''daily'', ''weekly'', ''monthly'', ''yearly'']
       (frequency (recurring t))
   @ minOf ''recurring.interval'' 1 (interval (recurring t))"

subsection \<open>The pre-save hooks (lines 217-233)\<close>

text \<open>
  \<open>!this.postedDate\<close> holds exactly for an absent date: a Date object is truthy
  whatever instant it holds.
\<close>

definition setPostedDate :: "int \<Rightarrow> transaction \<Rightarrow> transaction" where
  "setPostedDate now t =
     (if status t = Some ''posted'' \<and> postedDate t = None
      then t\<lparr>postedDate := Some now\<rparr> else t)"

text \<open>
  A comparison with an absent amount is false in JavaScript, so neither branch is taken
  for it.
\<close>

definition normalizeAmountSign :: "transaction \<Rightarrow> transaction" where
  "normalizeAmountSign t =
     (case amount t of
        None \<Rightarrow> t
      | Some a \<Rightarrow>
          if type t = Some ''income'' \<and> a < 0 then t\<lparr>amount := Some \<bar>a\<bar>\<rparr>
          else if type t = Some ''expense'' \<and> a > 0 then t\<lparr>amount := Some (- \<bar>a\<bar>)\<rparr>
          else t)"

text \<open>Hooks run in the order the schema registered them.\<close>

datatype hook = SetPostedDate | NormalizeAmountSign

definition preSaveHooks :: "hook list" where
  "preSaveHooks = [SetPostedDate, NormalizeAmountSign]"

fun runHook :: "int \<Rightarrow> hook \<Rightarrow> transaction \<Rightarrow> transaction" where
  "runHook now SetPostedDate t = setPostedDate now t"
| "runHook now NormalizeAmountSign t = normalizeAmountSign t"

definition runHooks :: "int \<Rightarrow> hook list \<Rightarrow> transaction \<Rightarrow> transaction" where
  "runHooks now hs t = fold (runHook now) hs t"

text \<open>
  \<open>save\<close>: the built-in validation hook comes first; when it fails the user hooks do not
  run and the promise is rejected. The result \<open>Inr\<close> is the document as written.
  Validation looks at every path, as it does for a new document.
\<close>

definition save :: "int \<Rightarrow> transaction \<Rightarrow> error + transaction" where
  "save now t =
     (case validate t of
        [] \<Rightarrow> Inr (runHooks now preSaveHooks t)
      | e # es \<Rightarrow> Inl (ValidationError (e # es)))"

subsection \<open>Documents and the collection\<close>

text \<open>
  \<open>new Transaction(obj)\<close> passes every given value through the setters of its path
  (\<open>trim\<close>, \<open>lowercase\<close>, \<open>uppercase\<close>) and fills the absent paths that have a
  default. The boolean paths all default to \<open>false\<close>, which the record's \<open>bool\<close> fields
  already say. The same setters run whenever a value is assigned to a path of a document
  or pushed onto one of its arrays.
\<close>

definition castTag :: "string \<Rightarrow> string" where
  "castTag s = trim (toLowerCase s)"

definition applySetters :: "transaction \<Rightarrow> transaction" where
  "applySetters t =
     t\<lparr>currency := map_option toUpperCase (currency t),
       type := map_option toLowerCase (type t),
       category := (category t)\<lparr>primary := map_option trim (primary (category t)),
                                secondary := map_option trim (secondary (category t))\<rparr>,
       description := map_option trim (description t),
       merchant := (merchant t)\<lparr>merchant_name := map_option trim (merchant_name (merchant t))\<rparr>,
       status := map_option toLowerCase (status t),
       tags := map castTag (tags t),
       notes := map_option trim (notes t),
       recurring := (recurring t)\<lparr>frequency := map_option toLowerCase (frequency (recurring t))\<rparr>\<rparr>"

definition orDefault :: "'a \<Rightarrow> 'a option \<Rightarrow> 'a option" where
  "orDefault d v = (case v of None \<Rightarrow> Some d | Some x \<Rightarrow> Some x)"

definition applyDefaults :: "int \<Rightarrow> nat \<Rightarrow> transaction \<Rightarrow> transaction" where
  "applyDefaults now newId t =
     t\<lparr>ident := orDefault newId (ident t),
       currency := orDefault ''USD'' (currency t),
       date := orDefault now (date t),
       status := orDefault ''pending'' (status t),
       attachments := map (\<lambda>a. a\<lparr>uploadedAt := orDefault now (uploadedAt a)\<rparr>) (attachments t),
       recurring := (recurring t)\<lparr>interval := orDefault 1 (interval (recurring t))\<rparr>\<rparr>"

definition newTransaction :: "int \<Rightarrow> nat \<Rightarrow> transaction \<Rightarrow> transaction" where
  "newTransaction now newId obj = applyDefaults now newId (applySetters obj)"

text \<open>
  The indexes the schema declares: \<open>index: true\<close> on four paths (lines 8, 14, 19, 75)
  and seven calls of \<open>transactionSchema.index\<close> (lines 209-215). An index is unique
  only when its options say \<open>unique: true\<close>; none does. The database adds the unique
  index on \<open>_id\<close>.
\<close>

record index_t =
  index_keys :: "string list"
  sparse :: bool
  unique :: bool

definition schemaIndexes :: "index_t list" where
  "schemaIndexes =
     [\<lparr>index_keys = [''user''], sparse = False, unique = False\<rparr>,
      \<lparr>index_keys = [''account''], sparse = False, unique = False\<rparr>,
      \<lparr>index_keys = [''plaidTransactionId''], sparse = True, unique = False\<rparr>,
      \<lparr>index_keys = [''date''], sparse = False, unique = False\<rparr>,
      \<lparr>index_keys = [''user'', ''date''], sparse = False, unique = False\<rparr>,
      \<lparr>index_keys = [''user'', ''account'', ''date''], sparse = False, unique = False\<rparr>,
      \<lparr>index_keys = [''user'', ''category'', ''date''], sparse = False, unique = False\<rparr>,
      \<lparr>index_keys = [''user'', ''type'', ''date''], sparse = False, unique = False\<rparr>,
      \<lparr>index_keys = [''user'', ''amount''], sparse = False, unique = False\<rparr>,
      \<lparr>index_keys = [''user'', ''merchant''], sparse = False, unique = False\<rparr>,
      \<lparr>index_keys = [''plaidTransactionId''], sparse = True, unique = False\<rparr>]"

definition idIndex :: index_t where
  "idIndex = \<lparr>index_keys = [''_id''], sparse = False, unique = True\<rparr>"

datatype bson = BNull | BId nat | BString string | BNumber real | BDate int
  | BDocument "(string \<times> bson) list"

definition bsonId :: "nat option \<Rightarrow> bson" where
  "bsonId v = (case v of None \<Rightarrow> BNull | Some i \<Rightarrow> BId i)"

definition bsonString :: "string option \<Rightarrow> bson" where
  "bsonString v = (case v of None \<Rightarrow> BNull | Some s \<Rightarrow> BString s)"

definition bsonNumber :: "real option \<Rightarrow> bson" where
  "bsonNumber v = (case v of None \<Rightarrow> BNull | Some x \<Rightarrow> BNumber x)"

definition bsonDate :: "int option \<Rightarrow> bson" where
  "bsonDate v = (case v of None \<Rightarrow> BNull | Some d \<Rightarrow> BDate d)"

definition getPath :: "string \<Rightarrow> transaction \<Rightarrow> bson" where
  "getPath p t =
     (if p = ''_id'' then bsonId (ident t)
      else if p = ''user'' then bsonId (user t)
      else if p = ''account'' then bsonId (account t)
      else if p = ''plaidTransactionId'' then bsonString (plaidTransactionId t)
      else if p = ''date'' then bsonDate (date t)
      else if p = ''type'' then bsonString (type t)
      else if p = ''amount'' then bsonNumber (amount t)
      else if p = ''category'' then
        BDocument [(''primary'', bsonString (primary (category t))),
                   (''secondary'', bsonString (secondary (category t))),
                   (''plaidCategoryId'', bsonString (plaidCategoryId (category t)))]
      else if p = ''merchant'' then
        BDocument [(''name'', bsonString (merchant_name (merchant t))),
                   (''id'', bsonString (merchant_id (merchant t))),
                   (''website'', bsonString (website (merchant t))),
                   (''logo'', bsonString (logo (merchant t)))]
      else BNull)"

text \<open>
  A sparse index holds only the documents that have one of its keys; a unique index
  refuses a document whose key tuple is already in it.
\<close>

definition indexKey :: "index_t \<Rightarrow> transaction \<Rightarrow> bson list" where
  "indexKey ix t = map (\<lambda>p. getPath p t) (index_keys ix)"

definition indexed :: "index_t \<Rightarrow> transaction \<Rightarrow> bool" where
  "indexed ix t = (\<not> sparse ix \<or> list_ex (\<lambda>v. v \<noteq> BNull) (indexKey ix t))"

definition duplicateKey :: "index_t \<Rightarrow> transaction list \<Rightarrow> transaction \<Rightarrow> bool" where
  "duplicateKey ix coll t =
     (unique ix \<and> indexed ix t \<and>
      list_ex (\<lambda>d. indexed ix d \<and> indexKey ix d = indexKey ix t) coll)"

definition insertOne :: "transaction list \<Rightarrow> transaction \<Rightarrow> error + transaction list" where
  "insertOne coll t =
     (case filter (\<lambda>ix. duplicateKey ix coll t) (idIndex # schemaIndexes) of
        [] \<Rightarrow> Inr (coll @ [t])
      | ix # _ \<Rightarrow> Inl (DuplicateKeyError (index_keys ix)))"

text \<open>A new ObjectId differs from every identifier in the collection.\<close>

definition newObjectId :: "transaction list \<Rightarrow> nat" where
  "newObjectId coll =
     Suc (fold max (map (\<lambda>d. case ident d of None \<Rightarrow> 0 | Some i \<Rightarrow> i) coll) 0)"

text \<open>
  \<open>Transaction.create(obj)\<close>: build the document, save it (validation, then the
  hooks), insert it. The result is the collection and the document as written.
\<close>

definition create ::
  "int \<Rightarrow> transaction list \<Rightarrow> transaction \<Rightarrow> error + (transaction list \<times> transaction)" where
  "create now coll obj =
     (case save now (newTransaction now (newObjectId coll) obj) of
        Inl e \<Rightarrow> Inl e
      | Inr d \<Rightarrow> (case insertOne coll d of Inl e \<Rightarrow> Inl e | Inr coll' \<Rightarrow> Inr (coll', d)))"

subsection \<open>The formatted amount (lines 189-193)\<close>

text \<open>
  \<open>Number.prototype.toFixed\<close> is the argument \<open>toFixed\<close>: the digits it prints
  depend on the double behind the amount. \<open>Math.abs\<close> of an absent amount is
  \<open>NaN\<close>, which prints as such.
\<close>

definition formattedAmount :: "(real \<Rightarrow> nat \<Rightarrow> string) \<Rightarrow> transaction \<Rightarrow> string" where
  "formattedAmount toFixed t =
     (let sign = (if type t = Some ''income'' then ''+'' else ''-'')
      in sign @ templateString (currency t) @ '' '' @
         (case amount t of None \<Rightarrow> ''NaN'' | Some a \<Rightarrow> toFixed \<bar>a\<bar> 2))"

text \<open>
  For the examples: \<open>toFixed\<close> on amounts whose double is the decimal itself and lies
  below \<open>10^21\<close>, where the builtin rounds to the nearest multiple of \<open>10^-f\<close>,
  the larger one on a tie, and prints it in decimal.
\<close>

definition digitChar :: "int \<Rightarrow> char" where
  "digitChar n = char_of (48 + n)"

function showInt :: "int \<Rightarrow> string" where
  "showInt n = (if n < 10 then [digitChar n] else showInt (n div 10) @ [digitChar (n mod 10)])"
  by pat_completeness auto
termination
  by (relation "measure nat") auto

fun showDigits :: "nat \<Rightarrow> int \<Rightarrow> string" where
  "showDigits 0 n = []"
| "showDigits (Suc f) n = showDigits f (n div 10) @ [digitChar (n mod 10)]"

definition toFixedDecimal :: "real \<Rightarrow> nat \<Rightarrow> string" where
  "toFixedDecimal x f =
     (let n = \<lfloor>\<bar>x\<bar> * 10 ^ f + 1 / 2\<rfloor>
      in (if x < 0 then ''-'' else [])
         @ showInt (n div 10 ^ f) @ (if f = 0 then [] else ''.'' @ showDigits f n))"

subsection \<open>Instance methods (lines 305-338)\<close>

text \<open>
  A method is a function of the document \<open>this\<close> that returns the document as the call
  leaves it together with the method's result. \<open>this.save()\<close> leaves the document as
  the hooks rewrote it when validation passes, and untouched, with the error, when it
  does not.
\<close>

definition saveThis :: "int \<Rightarrow> transaction \<Rightarrow> transaction \<times> error option" where
  "saveThis now t = (case save now t of Inl e \<Rightarrow> (t, Some e) | Inr t' \<Rightarrow> (t', None))"

text \<open>
  \<open>duplicate\<close> builds a second document from a copy of the fields of \<open>this\<close> (the
  constructor, with its setters and defaults; \<open>ctorId\<close> is the identifier it would
  generate for fields that have none) and assigns eight of its paths. The assignments
  to the string paths pass through their setters. Assigning \<open>undefined\<close> to \<open>_id\<close>
  does not leave the copy without an identifier: the setter of that path answers
  \<open>undefined\<close> with a newly generated ObjectId, \<open>newId\<close>. The method makes no
  assignment to \<open>this\<close>, returns the copy and does not save it.
\<close>

definition duplicate ::
  "int \<Rightarrow> nat \<Rightarrow> nat \<Rightarrow> transaction \<Rightarrow> transaction \<times> transaction" where
  "duplicate now ctorId newId t =
     (t, (newTransaction now ctorId t)
           \<lparr>ident := Some newId,
            date := Some now,
            status := Some (toLowerCase ''pending''),
            description := Some (trim (''Copy of '' @ templateString (description t))),
            attachments := [],
            notes := Some [],
            isReconciled := False,
            reconciliationDate := None\<rparr>)"

definition markReconciled :: "int \<Rightarrow> transaction \<Rightarrow> transaction \<times> error option" where
  "markReconciled now t = saveThis now (t\<lparr>isReconciled := True, reconciliationDate := Some now\<rparr>)"

text \<open>
  \<open>push\<close> on the array of a document casts the pushed value with the element type of
  line 87, that is through \<open>castTag\<close>. The elements that \<open>filter\<close> keeps are tags of
  the document already.
\<close>

definition addTag :: "int \<Rightarrow> string \<Rightarrow> transaction \<Rightarrow> transaction \<times> error option" where
  "addTag now tag t =
     saveThis now
       (if toLowerCase tag \<in> set (tags t) then t
        else t\<lparr>tags := tags t @ [castTag (toLowerCase tag)]\<rparr>)"

definition removeTag :: "int \<Rightarrow> string \<Rightarrow> transaction \<Rightarrow> transaction \<times> error option" where
  "removeTag now tag t =
     saveThis now (t\<lparr>tags := filter (\<lambda>x. x \<noteq> toLowerCase tag) (tags t)\<rparr>)"

subsection \<open>Aggregations (lines 254-303)\<close>

text \<open>
  \<open>$group\<close> keeps one accumulator per key: a document either opens the group of its
  key or updates the accumulator that is there. \<open>$sum\<close> starts from 0 and takes an
  absent operand as 0. The database fixes neither the order of the groups nor the
  order in which \<open>$sort\<close> leaves groups with equal sort keys; the model takes the order
  of first occurrence and a stable sort.
\<close>

fun upsert :: "'k \<Rightarrow> ('v option \<Rightarrow> 'v) \<Rightarrow> ('k \<times> 'v) list \<Rightarrow> ('k \<times> 'v) list" where
  "upsert k f [] = [(k, f None)]"
| "upsert k f ((k', v) # r) = (if k' = k then (k', f (Some v)) # r else (k', v) # upsert k f r)"

definition group :: "('d \<Rightarrow> 'k) \<Rightarrow> ('d \<Rightarrow> 'v option \<Rightarrow> 'v) \<Rightarrow> 'd list \<Rightarrow> ('k \<times> 'v) list" where
  "group key acc docs = fold (\<lambda>d. upsert (key d) (acc d)) docs []"

record categoryTotal =
  category_id :: "string option"
  totalAmount :: real
  count :: nat

definition sumAbsAndCount :: "transaction \<Rightarrow> (real \<times> nat) option \<Rightarrow> real \<times> nat" where
  "sumAbsAndCount d v =
     (let a = (case amount d of None \<Rightarrow> 0 | Some x \<Rightarrow> \<bar>x\<bar>)
      in case v of None \<Rightarrow> (0 + a, 0 + 1) | Some (s, c) \<Rightarrow> (s + a, c + 1))"

definition getSpendingByCategory ::
  "transaction list \<Rightarrow> nat \<Rightarrow> int \<Rightarrow> int \<Rightarrow> categoryTotal list" where
  "getSpendingByCategory coll userId startDate endDate =
     (let matched = filter (\<lambda>d. user d = Some userId \<and> type d = Some ''expense'' \<and>
                  (case date d of None \<Rightarrow> False | Some x \<Rightarrow> startDate \<le> x \<and> x \<le> endDate)) coll;
          grouped = map (\<lambda>(k, s, c). \<lparr>category_id = k, totalAmount = s, count = c\<rparr>)
                      (group (\<lambda>d. primary (category d)) sumAbsAndCount matched)
      in sort_key (\<lambda>e. - totalAmount e) grouped)"












subsection \<open>Sample data\<close>

definition emptyTransaction :: transaction where
  "emptyTransaction =
     \<lparr>ident = None, user = None, account = None, plaidTransactionId = None, amount = None,
      currency = None, type = None,
      category = \<lparr>primary = None, secondary = None, plaidCategoryId = None\<rparr>,
      description = None,
      merchant = \<lparr>merchant_name = None, merchant_id = None, website = None, logo = None\<rparr>,
      date = None, postedDate = None, status = None, tags = [], notes = None,
      attachments = [],
      recurring = \<lparr>isRecurring = False, frequency = None, interval = None,
                   nextDueDate = None, recurring_endDate = None, originalTransactionId = None\<rparr>,
      split = \<lparr>isSplit = False, split_totalAmount = None, splits = []\<rparr>,
      location = \<lparr>street = None, city = None, state = None, zipCode = None, country = None,
                  latitude = None, longitude = None\<rparr>,
      metadata = \<lparr>plaidData = None, customFields = None, importSource = None,
                  importDate = None\<rparr>,
      isReconciled = False, reconciliationDate = None, isHidden = False, isArchived = False\<rparr>"

text \<open>What a caller passes to \<open>create\<close> for a purchase of 50 on a given day.\<close>

definition groceries :: transaction where
  "groceries =
     emptyTransaction\<lparr>user := Some 7, account := Some 3, amount := Some 50,
       type := Some ''expense'',
       category := (category emptyTransaction)\<lparr>primary := Some ''Food''\<rparr>,
       description := Some ''Groceries'', date := Some 1700000000000\<rparr>"

text \<open>
  The same purchase as the bank-sync importer delivers it, and the document that
  \<open>create\<close> writes for it under the identifier \<open>i\<close>.
\<close>

definition bankImport :: transaction where
  "bankImport = groceries\<lparr>plaidTransactionId := Some ''plaid-1''\<rparr>"

definition importedDoc :: "nat \<Rightarrow> transaction" where
  "importedDoc i =
     bankImport\<lparr>ident := Some i, amount := Some (-50), currency := Some ''USD'',
       status := Some ''pending'',
       recurring := (recurring bankImport)\<lparr>interval := Some 1\<rparr>\<rparr>"

text \<open>
  A transfer and a salary payment for the formatted amount; an object that violates two
  constraints; an object whose description has 201 characters, the last one a space,
  and the document that \<open>create\<close> writes for it.
\<close>

definition transferIn :: transaction where
  "transferIn = groceries\<lparr>type := Some ''transfer'', currency := Some ''USD'', amount := Some 25\<rparr>"

definition salary :: transaction where
  "salary = groceries\<lparr>type := Some ''income'', currency := Some ''USD'', amount := Some 1000,
     category := (category groceries)\<lparr>primary := Some ''Salary''\<rparr>, description := Some ''Pay''\<rparr>"

definition rejected :: transaction where
  "rejected = groceries\<lparr>amount := Some 0, description := Some (replicate 201 (CHR ''a''))\<rparr>"

definition padded :: transaction where
  "padded = groceries\<lparr>description := Some (replicate 200 (CHR ''a'') @ '' '')\<rparr>"

definition paddedDoc :: transaction where
  "paddedDoc = padded\<lparr>ident := Some 1, amount := Some (-50), currency := Some ''USD'',
       status := Some ''pending'', description := Some (replicate 200 (CHR ''a'')),
       recurring := (recurring padded)\<lparr>interval := Some 1\<rparr>\<rparr>"

text \<open>
  A stored document whose currency has been unset and whose description has been
  emptied in memory.
\<close>

definition bareDoc :: transaction where
  "bareDoc = (importedDoc 1)\<lparr>currency := None, description := Some []\<rparr>"

text \<open>
  Collections for the two aggregations, and a document dated after the clock of the
  example.
\<close>

definition spendingSample :: "transaction list" where
  "spendingSample = [importedDoc 1, (importedDoc 2)\<lparr>amount := Some (-30)\<rparr>,
     salary\<lparr>ident := Some 3\<rparr>]"



section \<open>Auxiliary facts\<close>

subsection \<open>Strings\<close>

lemma toLowerCaseChar_idem [simp]: "toLowerCaseChar (toLowerCaseChar c) = toLowerCaseChar c"
  by (auto simp: toLowerCaseChar_def Let_def)

lemma toLowerCase_idem [simp]: "toLowerCase (toLowerCase s) = toLowerCase s"
  by (simp add: toLowerCase_def)

lemma toUpperCaseChar_idem [simp]: "toUpperCaseChar (toUpperCaseChar c) = toUpperCaseChar c"
  by (auto simp: toUpperCaseChar_def Let_def)

lemma toUpperCase_idem [simp]: "toUpperCase (toUpperCase s) = toUpperCase s"
  by (simp add: toUpperCase_def)

lemma isWhiteSpace_toLowerCaseChar [simp]: "isWhiteSpace (toLowerCaseChar c) = isWhiteSpace c"
  by (auto simp: toLowerCaseChar_def isWhiteSpace_def Let_def)

lemma dropWhile_isWhiteSpace_map:
  "dropWhile isWhiteSpace (map toLowerCaseChar s) = map toLowerCaseChar (dropWhile isWhiteSpace s)"
  by (induction s) simp_all

lemma trim_toLowerCase: "trim (toLowerCase s) = toLowerCase (trim s)"
  by (simp add: trim_def toLowerCase_def dropWhile_isWhiteSpace_map rev_map)

lemma dropWhile_id: "xs = [] \<or> \<not> P (hd xs) \<Longrightarrow> dropWhile P xs = xs"
  by (cases xs) auto

lemma trim_idem [simp]: "trim (trim s) = trim s"
proof -
  define u where "u = dropWhile isWhiteSpace s"
  define v where "v = dropWhile isWhiteSpace (rev u)"
  have t: "trim s = rev v" by (simp add: trim_def u_def v_def)
  have "rev v = [] \<or> \<not> isWhiteSpace (hd (rev v))"
  proof (cases "v = []")
    case True
    then show ?thesis by simp
  next
    case False
    have "rev u = takeWhile isWhiteSpace (rev u) @ v" by (simp add: v_def)
    then have "last (rev u) = last v" using False by (metis last_appendR)
    moreover have "u \<noteq> []" using False by (auto simp: v_def)
    ultimately have "last v = hd u" by (simp add: last_rev)
    moreover have "\<not> isWhiteSpace (hd u)"
      using \<open>u \<noteq> []\<close> unfolding u_def by (rule hd_dropWhile)
    ultimately show ?thesis using False by (simp add: hd_rev)
  qed
  then have a: "dropWhile isWhiteSpace (rev v) = rev v" by (rule dropWhile_id)
  have b: "dropWhile isWhiteSpace v = v" by (simp add: v_def)
  show ?thesis unfolding t by (simp add: trim_def a b)
qed

lemma castTag_idem [simp]: "castTag (castTag s) = castTag s"
  by (simp add: castTag_def trim_toLowerCase)

lemma trim_fixed_last:
  assumes "trim d = d" "d \<noteq> []"
  shows "\<not> isWhiteSpace (last d)"
proof -
  define v where "v = dropWhile isWhiteSpace (rev (dropWhile isWhiteSpace d))"
  have d: "d = rev v" using assms(1) by (simp add: trim_def v_def)
  with assms(2) have "v \<noteq> []" by simp
  then have "\<not> isWhiteSpace (hd v)" unfolding v_def by (rule hd_dropWhile)
  then show ?thesis using \<open>v \<noteq> []\<close> by (simp add: d last_rev)
qed

lemma trim_append_fixed:
  assumes "trim d = d" "d \<noteq> []" "p \<noteq> []" "\<not> isWhiteSpace (hd p)"
  shows "trim (p @ d) = p @ d"
proof -
  have a: "dropWhile isWhiteSpace (p @ d) = p @ d"
    using assms(3,4) by (intro dropWhile_id) simp
  have "\<not> isWhiteSpace (hd (rev d @ rev p))"
    using trim_fixed_last [OF assms(1,2)] assms(2) by (simp add: hd_rev)
  then have b: "dropWhile isWhiteSpace (rev d @ rev p) = rev d @ rev p"
    by (intro dropWhile_id) simp
  show ?thesis by (simp add: trim_def a b)
qed

lemma copy_of_trimmed:
  "trim d = d \<Longrightarrow> d \<noteq> [] \<Longrightarrow> trim (''Copy of '' @ d) = ''Copy of '' @ d"
proof (rule trim_append_fixed)
  show "\<not> isWhiteSpace (hd ''Copy of '')" by code_simp
qed simp_all

lemma dropWhile_replicate:
  "\<not> P c \<Longrightarrow> dropWhile P (replicate n c) = replicate n c"
  by (cases n) simp_all

lemma trim_replicate: "\<not> isWhiteSpace c \<Longrightarrow> trim (replicate n c) = replicate n c"
  by (simp add: trim_def dropWhile_replicate)

lemma trim_replicate_space:
  assumes "\<not> isWhiteSpace c" "0 < n"
  shows "trim (replicate n c @ '' '') = replicate n c"
proof -
  have w: "isWhiteSpace (CHR '' '')" by code_simp
  have a: "dropWhile isWhiteSpace (replicate n c @ '' '') = replicate n c @ '' ''"
    using assms by (cases n) simp_all
  have "rev (replicate n c @ '' '') = CHR '' '' # replicate n c" by simp
  then have "dropWhile isWhiteSpace (rev (replicate n c @ '' '')) =
      dropWhile isWhiteSpace (replicate n c)"
    using w by simp
  also have "\<dots> = replicate n c" using assms(1) by (rule dropWhile_replicate)
  finally show ?thesis by (simp only: trim_def a rev_replicate)
qed

lemma not_space_a: "\<not> isWhiteSpace (CHR ''a'')"
  by code_simp

lemma string_samples:
  "toLowerCase ''expense'' = ''expense''" "toLowerCase ''income'' = ''income''"
  "toLowerCase ''transfer'' = ''transfer''" "toLowerCase ''pending'' = ''pending''"
  "toLowerCase ''Food'' = ''food''" "toLowerCase ''food'' = ''food''"
  "toLowerCase ''FOOD'' = ''food''" "toLowerCase ''Lunch'' = ''lunch''"
  "toLowerCase '' A'' = '' a''" "toLowerCase '' a'' = '' a''"
  "toUpperCase ''USD'' = ''USD''"
  "trim ''Food'' = ''Food''" "trim ''Salary'' = ''Salary''" "trim ''Groceries'' = ''Groceries''"
  "trim ''Pay'' = ''Pay''" "trim ''food'' = ''food''" "trim '' a'' = ''a''"
  by code_simp+

lemma toFixed_samples:
  "toFixedDecimal 25 2 = ''25.00''" "toFixedDecimal 1000 2 = ''1000.00''"
  by code_simp+

lemma take_drop_1: "take 1 x = [c] \<Longrightarrow> drop 1 x = y \<Longrightarrow> x = c # y"
  using append_take_drop_id [of 1 x] by simp

lemma map_option_idem: "(\<And>x. f (f x) = f x) \<Longrightarrow> map_option f (map_option f v) = map_option f v"
  by (cases v) simp_all

subsection \<open>Validation\<close>

lemmas validate_defs = validate_def requiredId_def requiredDate_def requiredNumber_def
  requiredString_def enumOf_def maxlength_def minOf_def amountValidator_def firstError_def

lemma set_validate:
  "set (validate t) =
     set (requiredId ''user'' ''User ID is required'' (user t))
   \<union> set (requiredId ''account'' ''Account ID is required'' (account t))
   \<union> set (firstError [requiredNumber ''amount'' ''Amount is required'' (amount t),
                 amountValidator (amount t)])
   \<union> set (enumOf ''currency'' [''USD'', ''EUR'', ''GBP'', ''CAD'', ''AUD'', ''JPY'', ''CHF''] (currency t))
   \<union> set (firstError [requiredString ''type'' ''Transaction type is required'' (type t),
                 enumOf ''type'' [''income'', ''expense'', ''transfer''] (type t)])
   \<union> set (requiredString ''category.primary'' ''Primary category is required'' (primary (category t)))
   \<union> set (firstError [requiredString ''description'' ''Description is required'' (description t),
                 maxlength ''description'' 200 ''Description cannot exceed 200 characters''
                   (description t)])
   \<union> set (maxlength ''merchant.name'' 100 ''Merchant name cannot exceed 100 characters''
       (merchant_name (merchant t)))
   \<union> set (requiredDate ''date'' ''Transaction date is required'' (date t))
   \<union> set (enumOf ''status'' [''pending'', ''posted'', ''cancelled'', ''failed''] (status t))
   \<union> set (maxlength ''notes'' 500 ''Notes cannot exceed 500 characters'' (notes t))
   \<union> set (enumOf ''recurring.frequency'' [''daily'', ''weekly'', ''monthly'', ''yearly'']
       (frequency (recurring t)))
   \<union> set (minOf ''recurring.interval'' 1 (interval (recurring t)))"
  by (simp add: validate_def Un_assoc)

lemma in_requiredId:
  "x \<in> set (requiredId p m v) \<longleftrightarrow> v = None \<and> x = (p, Required, Some m)"
  by (auto simp: requiredId_def split: option.splits)

lemma in_requiredDate:
  "x \<in> set (requiredDate p m v) \<longleftrightarrow> v = None \<and> x = (p, Required, Some m)"
  by (auto simp: requiredDate_def split: option.splits)

lemma in_requiredString:
  "x \<in> set (requiredString p m v) \<longleftrightarrow> (v = None \<or> v = Some []) \<and> x = (p, Required, Some m)"
  by (auto simp: requiredString_def split: option.splits)

lemma in_enumOf:
  "x \<in> set (enumOf p vs v) \<longleftrightarrow> (\<exists>s. v = Some s \<and> s \<notin> set vs) \<and> x = (p, Enum, None)"
  by (cases v) (auto simp: enumOf_def)

lemma in_maxlength:
  "x \<in> set (maxlength p n m v) \<longleftrightarrow> (\<exists>s. v = Some s \<and> n < length s) \<and> x = (p, Maxlength, Some m)"
  by (cases v) (auto simp: maxlength_def)

lemma in_minOf:
  "x \<in> set (minOf p m v) \<longleftrightarrow> (\<exists>y. v = Some y \<and> y < m) \<and> x = (p, Min, None)"
  by (cases v) (auto simp: minOf_def)

lemma in_amount_validators:
  "x \<in> set (firstError [requiredNumber p m v, amountValidator v]) \<longleftrightarrow>
     (v = None \<and> x = (p, Required, Some m)) \<or>
     (v = Some 0 \<and> x = (''amount'', UserDefined, Some ''Amount cannot be zero''))"
  by (cases v) (auto simp: firstError_def requiredNumber_def amountValidator_def)

lemma in_required_enum:
  "x \<in> set (firstError [requiredString p m v, enumOf p' vs v]) \<longleftrightarrow>
     ((v = None \<or> v = Some []) \<and> x = (p, Required, Some m)) \<or>
     ((\<exists>s. v = Some s \<and> s \<noteq> [] \<and> s \<notin> set vs) \<and> x = (p', Enum, None))"
  by (cases v) (auto simp: firstError_def requiredString_def enumOf_def)

lemma in_required_maxlength:
  "x \<in> set (firstError [requiredString p m v, maxlength p' n m' v]) \<longleftrightarrow>
     ((v = None \<or> v = Some []) \<and> x = (p, Required, Some m)) \<or>
     ((\<exists>s. v = Some s \<and> n < length s) \<and> x = (p', Maxlength, Some m'))"
  by (cases v) (auto simp: firstError_def requiredString_def maxlength_def)

lemmas in_validators = in_requiredId in_requiredDate in_requiredString in_enumOf in_maxlength
  in_minOf in_amount_validators in_required_enum in_required_maxlength

lemma amount_zero_error:
  "(''amount'', UserDefined, Some ''Amount cannot be zero'') \<in> set (validate t) \<longleftrightarrow> amount t = Some 0"
  unfolding set_validate by (simp add: in_validators)

lemma description_long_error:
  "(''description'', Maxlength, Some ''Description cannot exceed 200 characters'') \<in> set (validate t)
     \<longleftrightarrow> (\<exists>s. description t = Some s \<and> 200 < length s)"
  unfolding set_validate by (simp add: in_validators)

lemma set_validate_eq:
  "set (validate t) =
     {x. (user t = None \<and> x = (''user'', Required, Some ''User ID is required'')) \<or>
         (account t = None \<and> x = (''account'', Required, Some ''Account ID is required'')) \<or>
         (amount t = None \<and> x = (''amount'', Required, Some ''Amount is required'')) \<or>
         (amount t = Some 0 \<and> x = (''amount'', UserDefined, Some ''Amount cannot be zero'')) \<or>
         ((\<exists>s. currency t = Some s \<and>
               s \<notin> set [''USD'', ''EUR'', ''GBP'', ''CAD'', ''AUD'', ''JPY'', ''CHF'']) \<and>
            x = (''currency'', Enum, None)) \<or>
         ((type t = None \<or> type t = Some []) \<and>
            x = (''type'', Required, Some ''Transaction type is required'')) \<or>
         ((\<exists>s. type t = Some s \<and> s \<noteq> [] \<and> s \<notin> set [''income'', ''expense'', ''transfer'']) \<and>
            x = (''type'', Enum, None)) \<or>
         ((primary (category t) = None \<or> primary (category t) = Some []) \<and>
            x = (''category.primary'', Required, Some ''Primary category is required'')) \<or>
         ((description t = None \<or> description t = Some []) \<and>
            x = (''description'', Required, Some ''Description is required'')) \<or>
         ((\<exists>s. description t = Some s \<and> 200 < length s) \<and>
            x = (''description'', Maxlength, Some ''Description cannot exceed 200 characters'')) \<or>
         ((\<exists>s. merchant_name (merchant t) = Some s \<and> 100 < length s) \<and>
            x = (''merchant.name'', Maxlength,
                 Some ''Merchant name cannot exceed 100 characters'')) \<or>
         (date t = None \<and> x = (''date'', Required, Some ''Transaction date is required'')) \<or>
         ((\<exists>s. status t = Some s \<and> s \<notin> set [''pending'', ''posted'', ''cancelled'', ''failed'']) \<and>
            x = (''status'', Enum, None)) \<or>
         ((\<exists>s. notes t = Some s \<and> 500 < length s) \<and>
            x = (''notes'', Maxlength, Some ''Notes cannot exceed 500 characters'')) \<or>
         ((\<exists>s. frequency (recurring t) = Some s \<and>
               s \<notin> set [''daily'', ''weekly'', ''monthly'', ''yearly'']) \<and>
            x = (''recurring.frequency'', Enum, None)) \<or>
         ((\<exists>y. interval (recurring t) = Some y \<and> y < 1) \<and>
            x = (''recurring.interval'', Min, None))}"
  unfolding set_validate set_eq_iff Un_iff mem_Collect_eq in_validators disj_assoc
  by (intro allI refl)

lemma validate_amount: "validate t = [] \<Longrightarrow> \<exists>a. amount t = Some a \<and> a \<noteq> 0"
  by (auto simp: validate_defs split: option.splits if_splits)

subsection \<open>The hooks and save\<close>

lemma runHooks_preSave:
  "runHooks now preSaveHooks t = normalizeAmountSign (setPostedDate now t)"
  by (simp add: runHooks_def preSaveHooks_def)

lemma postedDate_normalizeAmountSign [simp]:
  "postedDate (normalizeAmountSign t) = postedDate t"
  by (simp add: normalizeAmountSign_def split: option.splits)

lemma status_normalizeAmountSign [simp]:
  "status (normalizeAmountSign t) = status t"
  by (simp add: normalizeAmountSign_def split: option.splits)

lemma status_setPostedDate [simp]: "status (setPostedDate now t) = status t"
  by (simp add: setPostedDate_def)

lemma type_normalizeAmountSign [simp]: "type (normalizeAmountSign t) = type t"
  by (simp add: normalizeAmountSign_def split: option.splits)

lemma type_setPostedDate [simp]: "type (setPostedDate now t) = type t"
  by (simp add: setPostedDate_def)

lemma amount_setPostedDate [simp]: "amount (setPostedDate now t) = amount t"
  by (simp add: setPostedDate_def)

lemma ident_normalizeAmountSign [simp]: "ident (normalizeAmountSign t) = ident t"
  by (simp add: normalizeAmountSign_def split: option.splits)

lemma ident_setPostedDate [simp]: "ident (setPostedDate now t) = ident t"
  by (simp add: setPostedDate_def)

lemma plaid_normalizeAmountSign [simp]:
  "plaidTransactionId (normalizeAmountSign t) = plaidTransactionId t"
  by (simp add: normalizeAmountSign_def split: option.splits)

lemma plaid_setPostedDate [simp]:
  "plaidTransactionId (setPostedDate now t) = plaidTransactionId t"
  by (simp add: setPostedDate_def)

lemma tags_normalizeAmountSign [simp]: "tags (normalizeAmountSign t) = tags t"
  by (simp add: normalizeAmountSign_def split: option.splits)

lemma tags_setPostedDate [simp]: "tags (setPostedDate now t) = tags t"
  by (simp add: setPostedDate_def)

lemma save_Inr_iff:
  "save now t = Inr t' \<longleftrightarrow> validate t = [] \<and> t' = normalizeAmountSign (setPostedDate now t)"
  by (auto simp: save_def runHooks_preSave split: list.splits)

lemma save_sign:
  assumes "save now t = Inr t'"
  shows "\<exists>a a'. amount t = Some a \<and> amount t' = Some a' \<and> type t' = type t \<and>
           (type t' = Some ''income'' \<longrightarrow> 0 \<le> a') \<and>
           (type t' = Some ''expense'' \<longrightarrow> a' \<le> 0) \<and>
           (type t' = Some ''transfer'' \<longrightarrow> a' = a)"
proof -
  from assms have v: "validate t = []" and t': "t' = normalizeAmountSign (setPostedDate now t)"
    by (simp_all add: save_Inr_iff)
  from validate_amount [OF v] obtain a where a: "amount t = Some a" by blast
  show ?thesis using a unfolding t'
    by (auto simp: normalizeAmountSign_def)
qed

lemma tags_saveThis [simp]: "tags (fst (saveThis now t)) = tags t"
  by (simp add: saveThis_def save_def runHooks_preSave split: list.splits)

subsection \<open>The constructor and create\<close>

lemma amount_newTransaction [simp]: "amount (newTransaction now i obj) = amount obj"
  by (simp add: newTransaction_def applyDefaults_def applySetters_def)

lemma type_newTransaction [simp]: "type (newTransaction now i obj) = map_option toLowerCase (type obj)"
  by (simp add: newTransaction_def applyDefaults_def applySetters_def)

lemma ident_newTransaction [simp]:
  "ident (newTransaction now i obj) = orDefault i (ident obj)"
  by (simp add: newTransaction_def applyDefaults_def applySetters_def)

lemma plaid_newTransaction [simp]:
  "plaidTransactionId (newTransaction now i obj) = plaidTransactionId obj"
  by (simp add: newTransaction_def applyDefaults_def applySetters_def)

lemma description_newTransaction [simp]:
  "description (newTransaction now i obj) = map_option trim (description obj)"
  by (simp add: newTransaction_def applyDefaults_def applySetters_def)

lemma applySetters_idem: "applySetters (applySetters t) = applySetters t"
  by (simp add: applySetters_def map_option_idem)

lemma applySetters_newTransaction:
  "applySetters (newTransaction now i obj) = newTransaction now i obj"
proof -
  have u: "map_option toUpperCase (orDefault ''USD'' (map_option toUpperCase v)) =
      orDefault ''USD'' (map_option toUpperCase v)" for v
    by (cases v) (simp_all add: orDefault_def string_samples)
  have l: "map_option toLowerCase (orDefault ''pending'' (map_option toLowerCase v)) =
      orDefault ''pending'' (map_option toLowerCase v)" for v
    by (cases v) (simp_all add: orDefault_def string_samples)
  show ?thesis
    by (simp add: newTransaction_def applyDefaults_def applySetters_def u l map_option_idem)
qed

lemma applySetters_hooks:
  "applySetters t = t \<Longrightarrow>
   applySetters (normalizeAmountSign (setPostedDate now t)) = normalizeAmountSign (setPostedDate now t)"
proof -
  have a: "applySetters (u\<lparr>amount := x\<rparr>) = (applySetters u)\<lparr>amount := x\<rparr>" for u x
    by (simp add: applySetters_def)
  have p: "applySetters (u\<lparr>postedDate := x\<rparr>) = (applySetters u)\<lparr>postedDate := x\<rparr>" for u x
    by (simp add: applySetters_def)
  assume "applySetters t = t"
  then show ?thesis
    by (simp add: normalizeAmountSign_def setPostedDate_def a p split: option.splits)
qed

lemma create_Inr_iff:
  "create now coll obj = Inr (coll', d) \<longleftrightarrow>
     save now (newTransaction now (newObjectId coll) obj) = Inr d \<and> insertOne coll d = Inr coll'"
  by (auto simp: create_def split: sum.splits)

lemma create_Inl_validation:
  "validate (newTransaction now (newObjectId coll) obj) \<noteq> [] \<Longrightarrow>
   create now coll obj = Inl (ValidationError (validate (newTransaction now (newObjectId coll) obj)))"
  by (simp add: create_def save_def split: list.splits)

lemma le_fold_max: "(a::nat) \<le> fold max xs a"
  by (induction xs arbitrary: a) (auto intro: order_trans [OF max.cobounded2])

lemma mem_le_fold_max: "(x::nat) \<in> set xs \<Longrightarrow> x \<le> fold max xs a"
proof (induction xs arbitrary: a)
  case Nil
  then show ?case by simp
next
  case (Cons y ys)
  show ?case
  proof (cases "x = y")
    case True
    have "x \<le> max y a" using True by simp
    also have "\<dots> \<le> fold max ys (max y a)" by (rule le_fold_max)
    finally show ?thesis by simp
  next
    case False
    with Cons.prems have "x \<in> set ys" by simp
    from Cons.IH [OF this] show ?thesis by simp
  qed
qed

lemma newObjectId_fresh: "d \<in> set coll \<Longrightarrow> ident d \<noteq> Some (newObjectId coll)"
proof
  assume d: "d \<in> set coll" and i: "ident d = Some (newObjectId coll)"
  from d have "(case ident d of None \<Rightarrow> 0 | Some i \<Rightarrow> i)
      \<in> set (map (\<lambda>d. case ident d of None \<Rightarrow> 0 | Some i \<Rightarrow> i) coll)"
    by auto
  from mem_le_fold_max [OF this, of 0] show False
    by (simp add: i newObjectId_def)
qed

lemma no_unique_schemaIndexes: "ix \<in> set schemaIndexes \<Longrightarrow> \<not> unique ix"
  by (auto simp: schemaIndexes_def)

lemma duplicateKey_schemaIndexes:
  "filter (\<lambda>ix. duplicateKey ix coll t) schemaIndexes = []"
  by (simp add: filter_empty_conv duplicateKey_def no_unique_schemaIndexes)

lemma bsonId_eq_iff [simp]: "bsonId a = bsonId b \<longleftrightarrow> a = b"
  by (cases a; cases b) (simp_all add: bsonId_def)

lemma duplicateKey_idIndex:
  "duplicateKey idIndex coll t \<longleftrightarrow> (\<exists>d \<in> set coll. ident d = ident t)"
  by (auto simp: duplicateKey_def idIndex_def indexed_def indexKey_def getPath_def
      list_ex_iff)

lemma insertOne_eq:
  "insertOne coll t =
     (if \<exists>d \<in> set coll. ident d = ident t then Inl (DuplicateKeyError [''_id''])
      else Inr (coll @ [t]))"
proof -
  have "index_keys idIndex = [''_id'']" by (simp add: idIndex_def)
  then show ?thesis
    by (simp add: insertOne_def duplicateKey_schemaIndexes duplicateKey_idIndex)
qed

lemma created_is_document:
  assumes "create now coll obj = Inr (coll', d)"
  shows "applySetters d = d \<and> currency d \<noteq> None \<and> interval (recurring d) \<noteq> None \<and>
         (\<exists>s. description d = Some s \<and> s \<noteq> [])"
proof -
  let ?n = "newTransaction now (newObjectId coll) obj"
  from assms have v: "validate ?n = []" and d: "d = normalizeAmountSign (setPostedDate now ?n)"
    by (simp_all add: create_Inr_iff save_Inr_iff)
  have 1: "applySetters d = d"
    unfolding d by (rule applySetters_hooks) (rule applySetters_newTransaction)
  have f: "currency (normalizeAmountSign (setPostedDate now u)) = currency u"
    "recurring (normalizeAmountSign (setPostedDate now u)) = recurring u"
    "description (normalizeAmountSign (setPostedDate now u)) = description u" for u
    by (simp_all add: normalizeAmountSign_def setPostedDate_def split: option.splits)
  have 2: "currency d \<noteq> None" "interval (recurring d) \<noteq> None"
    by (simp_all add: d f newTransaction_def applyDefaults_def orDefault_def split: option.splits)
  have "(''description'', Required, Some ''Description is required'') \<notin> set (validate ?n)"
    by (simp add: v)
  then have 3: "\<exists>s. description d = Some s \<and> s \<noteq> []"
    unfolding d f set_validate_eq by (cases "description ?n") auto
  from 1 2 3 show ?thesis by blast
qed

subsection \<open>Grouping and sorting\<close>

lemma map_of_upsert:
  "map_of (upsert k f al) k' = (if k' = k then Some (f (map_of al k)) else map_of al k')"
  by (induction al) auto

lemma keys_upsert: "fst ` set (upsert k f al) = insert k (fst ` set al)"
  by (induction k f al rule: upsert.induct) force+

lemma distinct_upsert: "distinct (map fst al) \<Longrightarrow> distinct (map fst (upsert k f al))"
proof (induction al)
  case Nil
  then show ?case by simp
next
  case (Cons p al)
  obtain k' v where p: "p = (k', v)" by (cases p)
  from Cons show ?case
    by (auto simp: p keys_upsert [simplified image_set [symmetric]] simp del: image_set)
qed

lemma keys_fold_upsert:
  "fst ` set (fold (\<lambda>d. upsert (key d) (acc d)) docs al) = fst ` set al \<union> key ` set docs"
  by (induction docs arbitrary: al) (auto simp: keys_upsert)

lemma distinct_fold_upsert:
  "distinct (map fst al) \<Longrightarrow> distinct (map fst (fold (\<lambda>d. upsert (key d) (acc d)) docs al))"
  by (induction docs arbitrary: al) (simp_all add: distinct_upsert)

lemma keys_group: "fst ` set (group key acc docs) = key ` set docs"
  by (simp add: group_def keys_fold_upsert)

lemma distinct_group: "distinct (map fst (group key acc docs))"
  by (simp add: group_def distinct_fold_upsert)

lemma fold_upsert_sum:
  fixes p :: "'v \<Rightarrow> 'a::comm_monoid_add"
  assumes none: "\<And>d. p (acc d None) = h d"
    and some: "\<And>d v. p (acc d (Some v)) = p v + h d"
  shows "map_option p (map_of (fold (\<lambda>d. upsert (key d) (acc d)) docs al) k) =
     (case map_of al k of
        None \<Rightarrow> if k \<in> key ` set docs
                then Some (sum_list (map h (filter (\<lambda>d. key d = k) docs))) else None
      | Some v \<Rightarrow> Some (p v + sum_list (map h (filter (\<lambda>d. key d = k) docs))))"
proof (induction docs arbitrary: al)
  case Nil
  then show ?case by (simp split: option.splits)
next
  case (Cons d docs)
  show ?case
    by (simp add: Cons.IH map_of_upsert none some add.assoc split: option.splits)
qed

lemma group_sum:
  fixes p :: "'v \<Rightarrow> 'a::comm_monoid_add"
  assumes "\<And>d. p (acc d None) = h d" "\<And>d v. p (acc d (Some v)) = p v + h d"
    and "(k, v) \<in> set (group key acc docs)"
  shows "p v = sum_list (map h (filter (\<lambda>d. key d = k) docs))"
proof -
  from assms(3) have m: "map_of (group key acc docs) k = Some v"
    by (simp add: distinct_group)
  from fold_upsert_sum [of p acc h key docs "[]" k, OF assms(1,2)] m
  show ?thesis by (simp add: group_def split: if_splits)
qed

lemma distinct_map_sort_key:
  "distinct (map g (sort_key f xs)) = distinct (map g xs)"
  by (simp add: distinct_map)

lemma sorted_desc_sort_key:
  fixes f :: "'a \<Rightarrow> real"
  shows "sorted_wrt (\<lambda>a b. f b \<le> f a) (sort_key (\<lambda>e. - f e) xs)"
proof -
  have "sorted (map (\<lambda>e. - f e) (sort_key (\<lambda>e. - f e) xs))" by (rule sorted_sort_key)
  then show ?thesis by (simp add: sorted_map)
qed


subsection \<open>The sample data\<close>

lemmas sample_defs = groceries_def emptyTransaction_def

lemma validate_groceries_posted: "validate (groceries\<lparr>status := Some ''posted''\<rparr>) = []"
  by (simp add: validate_defs sample_defs)

lemma save_groceries_posted:
  "save 5 (groceries\<lparr>status := Some ''posted''\<rparr>) =
     Inr (groceries\<lparr>status := Some ''posted'', postedDate := Some 5, amount := Some (-50)\<rparr>)"
  unfolding save_Inr_iff
  by (simp add: validate_groceries_posted)
     (simp add: setPostedDate_def normalizeAmountSign_def sample_defs)

lemma validate_groceries: "validate groceries = []"
  by (simp add: validate_defs sample_defs)

lemma save_groceries: "save 5 groceries = Inr (groceries\<lparr>amount := Some (-50)\<rparr>)"
  unfolding save_Inr_iff
  by (simp add: validate_groceries)
     (simp add: setPostedDate_def normalizeAmountSign_def sample_defs)

lemma validate_refund: "validate (salary\<lparr>amount := Some (-1000)\<rparr>) = []"
  by (simp add: validate_defs sample_defs salary_def)

lemma save_refund: "save 5 (salary\<lparr>amount := Some (-1000)\<rparr>) = Inr salary"
  unfolding save_Inr_iff
  by (simp add: validate_refund)
     (simp add: setPostedDate_def normalizeAmountSign_def sample_defs salary_def)

lemma validate_transferIn: "validate transferIn = []"
  by (simp add: validate_defs sample_defs transferIn_def)

lemma save_transferIn: "save 5 transferIn = Inr transferIn"
  unfolding save_Inr_iff
  by (simp add: validate_transferIn)
     (simp add: setPostedDate_def normalizeAmountSign_def sample_defs transferIn_def)

lemma new_bankImport: "newTransaction now i bankImport = (importedDoc i)\<lparr>amount := Some 50\<rparr>"
  by (simp add: newTransaction_def applyDefaults_def applySetters_def orDefault_def sample_defs
      bankImport_def importedDoc_def string_samples)

lemma validate_bankImport: "validate ((importedDoc i)\<lparr>amount := Some 50\<rparr>) = []"
  by (simp add: validate_defs sample_defs bankImport_def importedDoc_def)

lemma save_bankImport: "save now (newTransaction now i bankImport) = Inr (importedDoc i)"
  unfolding save_Inr_iff new_bankImport
  by (simp add: validate_bankImport) (simp add: setPostedDate_def normalizeAmountSign_def sample_defs bankImport_def importedDoc_def)

lemma ident_importedDoc [simp]: "ident (importedDoc i) = Some i"
  by (simp add: importedDoc_def)

lemma newObjectId_1: "newObjectId [importedDoc 1] = 2"
  by (simp add: newObjectId_def)

lemma newObjectId_0: "newObjectId [] = 1"
  by (simp add: newObjectId_def)

lemma create_bankImport_1: "create 5 [] bankImport = Inr ([importedDoc 1], importedDoc 1)"
  unfolding create_Inr_iff newObjectId_0
  by (simp add: save_bankImport insertOne_eq)

lemma create_bankImport_2: "create 6 [importedDoc 1] bankImport = Inr ([importedDoc 1, importedDoc 2], importedDoc 2)"
  unfolding create_Inr_iff newObjectId_1
  by (simp add: save_bankImport insertOne_eq)

lemma plaid_importedDoc: "plaidTransactionId (importedDoc i) = Some ''plaid-1''"
  by (simp add: importedDoc_def bankImport_def)

lemma tags_groceries: "tags groceries = []"
  by (simp add: sample_defs)

lemma new_rejected:
  "validate (newTransaction now i rejected) =
     [(''amount'', UserDefined, Some ''Amount cannot be zero''),
      (''description'', Maxlength, Some ''Description cannot exceed 200 characters'')]"
  by (simp add: newTransaction_def applyDefaults_def applySetters_def orDefault_def sample_defs
      rejected_def string_samples trim_replicate not_space_a validate_defs)

lemma new_padded: "newTransaction now 1 padded = paddedDoc\<lparr>amount := Some 50\<rparr>"
proof -
  have "trim (replicate 200 (CHR ''a'') @ '' '') = replicate 200 (CHR ''a'')"
    by (rule trim_replicate_space [OF not_space_a]) simp
  then show ?thesis
    by (simp add: newTransaction_def applyDefaults_def applySetters_def orDefault_def sample_defs
      padded_def paddedDoc_def string_samples)
qed

lemma validate_padded: "validate (paddedDoc\<lparr>amount := Some 50\<rparr>) = []"
  by (simp add: validate_defs sample_defs padded_def paddedDoc_def)

lemma save_padded: "save now (newTransaction now 1 padded) = Inr paddedDoc"
  unfolding save_Inr_iff new_padded
  by (simp add: validate_padded)
     (simp add: setPostedDate_def normalizeAmountSign_def sample_defs padded_def paddedDoc_def)

lemma create_padded: "create 5 [] padded = Inr ([paddedDoc], paddedDoc)"
  unfolding create_Inr_iff newObjectId_0
  using save_padded [of 5] by (simp add: insertOne_eq)

lemma spending_eval:
  "getSpendingByCategory spendingSample 7 0 1800000000000 =
     [\<lparr>category_id = Some ''Food'', totalAmount = 80, count = 2\<rparr>]"
  by code_simp




section \<open>The claims\<close>

subsection \<open>C1: the bank identifier is not a key\<close>

text \<open>
  C1 as stated does not hold: no index of the schema is unique, so the importer's record
  can be inserted twice and the collection then holds two documents with the same
  \<open>plaidTransactionId\<close>.
\<close>

theorem plaidTransactionId_not_unique:
  "create 5 [] bankImport = Inr ([importedDoc 1], importedDoc 1) \<and>
   create 6 [importedDoc 1] bankImport = Inr ([importedDoc 1, importedDoc 2], importedDoc 2) \<and>
   plaidTransactionId (importedDoc 1) = Some ''plaid-1'' \<and>
   plaidTransactionId (importedDoc 2) = Some ''plaid-1''"
  by (intro conjI create_bankImport_1 create_bankImport_2 plaid_importedDoc)

text \<open>
  C1, amended. When a record has been created, creating a second valid record with the
  same \<open>plaidTransactionId\<close> (and no identifier of its own) succeeds as well: the
  collection then holds both documents, with that same \<open>plaidTransactionId\<close> and
  different identifiers.
\<close>

theorem create_same_plaidTransactionId:
  assumes first: "create now coll a = Inr (coll1, d1)"
    and valid: "validate (newTransaction now' (newObjectId coll1) b) = []"
    and noid: "ident b = None"
    and same: "plaidTransactionId a = Some x" "plaidTransactionId b = Some x"
  shows "\<exists>d2. create now' coll1 b = Inr (coll1 @ [d2], d2) \<and>
           d1 \<in> set (coll1 @ [d2]) \<and> d2 \<in> set (coll1 @ [d2]) \<and>
           plaidTransactionId d1 = Some x \<and> plaidTransactionId d2 = Some x \<and>
           ident d2 \<noteq> ident d1"
proof -
  define d2 where "d2 = normalizeAmountSign (setPostedDate now' (newTransaction now' (newObjectId coll1) b))"
  from first have s1: "save now (newTransaction now (newObjectId coll) a) = Inr d1"
    and i1: "insertOne coll d1 = Inr coll1" by (simp_all add: create_Inr_iff)
  from i1 have d1: "d1 \<in> set coll1" by (auto simp: insertOne_eq split: if_splits)
  from s1 have p1: "plaidTransactionId d1 = Some x" by (auto simp: save_Inr_iff same)
  have s2: "save now' (newTransaction now' (newObjectId coll1) b) = Inr d2"
    by (simp add: save_Inr_iff valid d2_def)
  have id2: "ident d2 = Some (newObjectId coll1)" by (simp add: d2_def noid orDefault_def)
  have fresh: "\<forall>d \<in> set coll1. ident d \<noteq> ident d2"
    using newObjectId_fresh [of _ coll1] by (simp add: id2)
  then have i2: "insertOne coll1 d2 = Inr (coll1 @ [d2])" by (simp add: insertOne_eq)
  have "create now' coll1 b = Inr (coll1 @ [d2], d2)" using s2 i2 by (simp add: create_Inr_iff)
  moreover have "plaidTransactionId d2 = Some x" by (simp add: d2_def same)
  moreover have "ident d2 \<noteq> ident d1" using fresh d1 by auto
  ultimately show ?thesis using d1 p1 by auto
qed

theorem create_same_plaidTransactionId_witness:
  "create 5 [] bankImport = Inr ([importedDoc 1], importedDoc 1) \<and>
   create 6 [importedDoc 1] bankImport = Inr ([importedDoc 1] @ [importedDoc 2], importedDoc 2) \<and>
   plaidTransactionId (importedDoc 1) = Some ''plaid-1'' \<and>
   plaidTransactionId (importedDoc 2) = Some ''plaid-1'' \<and>
   ident (importedDoc 2) \<noteq> ident (importedDoc 1)"
proof -
  have v: "validate (newTransaction 6 (newObjectId [importedDoc 1]) bankImport) = []"
    by (simp only: new_bankImport validate_bankImport)
  have p: "plaidTransactionId bankImport = Some ''plaid-1''" by (simp add: bankImport_def)
  have i: "ident bankImport = None" by (simp add: bankImport_def sample_defs)
  from create_same_plaidTransactionId [OF create_bankImport_1 v i p p]
  obtain d2 where c: "create 6 [importedDoc 1] bankImport = Inr ([importedDoc 1] @ [d2], d2)"
    and n: "ident d2 \<noteq> ident (importedDoc 1)" by blast
  from c have d2: "d2 = importedDoc 2" unfolding create_bankImport_2 by simp
  from c n create_bankImport_1 plaid_importedDoc [of 1] plaid_importedDoc [of 2]
  show ?thesis unfolding d2 by blast
qed

subsection \<open>C2: sign normalisation\<close>

text \<open>
  C2. After a successful \<open>save\<close>, and after a successful \<open>create\<close>, the amount of an
  \<open>income\<close> document is not negative, the amount of an \<open>expense\<close> document is not
  positive, and the amount of a \<open>transfer\<close> document is the one the caller supplied.
  Validation has made sure that there is an amount; the type is the caller's, in lower
  case for \<open>create\<close>.
\<close>

theorem saved_amount_sign:
  "(save now t = Inr t' \<longrightarrow>
      (\<exists>a a'. amount t = Some a \<and> amount t' = Some a' \<and> type t' = type t \<and>
           (type t' = Some ''income'' \<longrightarrow> 0 \<le> a') \<and>
           (type t' = Some ''expense'' \<longrightarrow> a' \<le> 0) \<and>
           (type t' = Some ''transfer'' \<longrightarrow> a' = a))) \<and>
   (create now coll obj = Inr (coll', d) \<longrightarrow>
      (\<exists>a a'. amount obj = Some a \<and> amount d = Some a' \<and>
           type d = map_option toLowerCase (type obj) \<and>
           (type d = Some ''income'' \<longrightarrow> 0 \<le> a') \<and>
           (type d = Some ''expense'' \<longrightarrow> a' \<le> 0) \<and>
           (type d = Some ''transfer'' \<longrightarrow> a' = a)))"
proof (intro conjI impI)
  assume "save now t = Inr t'"
  then show "\<exists>a a'. amount t = Some a \<and> amount t' = Some a' \<and> type t' = type t \<and>
           (type t' = Some ''income'' \<longrightarrow> 0 \<le> a') \<and>
           (type t' = Some ''expense'' \<longrightarrow> a' \<le> 0) \<and>
           (type t' = Some ''transfer'' \<longrightarrow> a' = a)" by (rule save_sign)
next
  assume "create now coll obj = Inr (coll', d)"
  then have "save now (newTransaction now (newObjectId coll) obj) = Inr d"
    by (simp add: create_Inr_iff)
  from save_sign [OF this]
  show "\<exists>a a'. amount obj = Some a \<and> amount d = Some a' \<and>
           type d = map_option toLowerCase (type obj) \<and>
           (type d = Some ''income'' \<longrightarrow> 0 \<le> a') \<and>
           (type d = Some ''expense'' \<longrightarrow> a' \<le> 0) \<and>
           (type d = Some ''transfer'' \<longrightarrow> a' = a)" by simp
qed

theorem saved_amount_sign_witness:
  "save 5 groceries = Inr (groceries\<lparr>amount := Some (-50)\<rparr>) \<and>
   save 5 (salary\<lparr>amount := Some (-1000)\<rparr>) = Inr salary \<and>
   save 5 transferIn = Inr transferIn \<and>
   create 5 [] bankImport = Inr ([importedDoc 1], importedDoc 1) \<and>
   type (groceries\<lparr>amount := Some (-50)\<rparr>) = Some ''expense'' \<and>
   amount (groceries\<lparr>amount := Some (-50)\<rparr>) = Some (-50) \<and>
   type salary = Some ''income'' \<and> amount salary = Some 1000 \<and>
   type transferIn = Some ''transfer'' \<and> amount transferIn = Some 25 \<and>
   type (importedDoc 1) = Some ''expense'' \<and> amount (importedDoc 1) = Some (-50)"
proof -
  note e = saved_amount_sign [where now = 5 and t = groceries
      and t' = "groceries\<lparr>amount := Some (-50)\<rparr>"
      and coll = "[]" and obj = bankImport and coll' = "[importedDoc 1]"
      and d = "importedDoc 1"]
  note i = saved_amount_sign [where now = 5 and t = "salary\<lparr>amount := Some (-1000)\<rparr>"
      and t' = salary and coll = "[]" and obj = bankImport and coll' = "[importedDoc 1]"
      and d = "importedDoc 1"]
  note x = saved_amount_sign [where now = 5 and t = transferIn and t' = transferIn
      and coll = "[]" and obj = bankImport and coll' = "[importedDoc 1]"
      and d = "importedDoc 1"]
  have ty: "type (groceries\<lparr>amount := Some (-50)\<rparr>) = Some ''expense''"
    "type salary = Some ''income''" "type transferIn = Some ''transfer''"
    "type (importedDoc 1) = Some ''expense''"
    by (simp_all add: importedDoc_def bankImport_def sample_defs salary_def transferIn_def)
  from e save_groceries create_bankImport_1 ty
  obtain a where "amount (groceries\<lparr>amount := Some (-50)\<rparr>) = Some a" "a \<le> 0"
    by blast
  moreover from e save_groceries create_bankImport_1 ty
  obtain b where "amount (importedDoc 1) = Some b" "b \<le> 0"
    by blast
  moreover from i save_refund ty
  obtain c where "amount salary = Some c" "0 \<le> c"
    by blast
  moreover from x save_transferIn ty
  obtain d d' where "amount transferIn = Some d" "amount transferIn = Some d'" "d' = d"
    by blast
  ultimately have "amount (groceries\<lparr>amount := Some (-50)\<rparr>) = Some (-50) \<and>
    amount salary = Some 1000 \<and> amount transferIn = Some 25 \<and>
    amount (importedDoc 1) = Some (-50)"
    by (simp add: importedDoc_def bankImport_def sample_defs salary_def transferIn_def)
  with save_groceries save_refund save_transferIn create_bankImport_1 ty
  show ?thesis by blast
qed

subsection \<open>C3: spending by category\<close>

text \<open>
  C3. \<open>getSpendingByCategory\<close> looks at the documents of the user whose type is
  \<open>expense\<close> and whose date lies in the closed range, and at no others. Its result is
  sorted by total amount, largest first, has one entry for each primary category of
  those documents, and every entry carries the sum of the absolute amounts and the
  number of the documents of its category.
\<close>

theorem getSpendingByCategory_groups:
  "let M = filter (\<lambda>d. user d = Some u \<and> type d = Some ''expense'' \<and>
                      (\<exists>x. date d = Some x \<and> s \<le> x \<and> x \<le> e)) coll;
       r = getSpendingByCategory coll u s e
   in sorted_wrt (\<lambda>a b. totalAmount b \<le> totalAmount a) r \<and>
      distinct (map category_id r) \<and>
      set (map category_id r) = (\<lambda>d. primary (category d)) ` set M \<and>
      (\<forall>g \<in> set r.
         totalAmount g =
           (\<Sum>d\<leftarrow>filter (\<lambda>d. primary (category d) = category_id g) M.
               case amount d of None \<Rightarrow> 0 | Some x \<Rightarrow> \<bar>x\<bar>) \<and>
         count g = length (filter (\<lambda>d. primary (category d) = category_id g) M))"
proof -
  define M where "M = filter (\<lambda>d. user d = Some u \<and> type d = Some ''expense'' \<and>
                      (\<exists>x. date d = Some x \<and> s \<le> x \<and> x \<le> e)) coll"
  define G where "G = group (\<lambda>d. primary (category d)) sumAbsAndCount M"
  define mk where "mk = (\<lambda>(k, s, c). \<lparr>category_id = k, totalAmount = s, count = c\<rparr>)"
  define r where "r = getSpendingByCategory coll u s e"
  have m: "(\<lambda>d. user d = Some u \<and> type d = Some ''expense'' \<and>
             (case date d of None \<Rightarrow> False | Some x \<Rightarrow> s \<le> x \<and> x \<le> e)) =
           (\<lambda>d. user d = Some u \<and> type d = Some ''expense'' \<and>
             (\<exists>x. date d = Some x \<and> s \<le> x \<and> x \<le> e))"
    by (auto split: option.splits)
  have r: "r = sort_key (\<lambda>e. - totalAmount e) (map mk G)"
    by (simp add: r_def getSpendingByCategory_def m M_def G_def mk_def)
  have ids: "map category_id (map mk G) = map fst G"
    by (auto simp: mk_def)
  have 1: "sorted_wrt (\<lambda>a b. totalAmount b \<le> totalAmount a) r"
    unfolding r by (rule sorted_desc_sort_key)
  have "distinct (map fst G)" unfolding G_def by (rule distinct_group)
  then have 2: "distinct (map category_id r)"
    unfolding r distinct_map_sort_key ids .
  have "set (map category_id r) = set (map category_id (map mk G))"
    unfolding r by (simp only: set_map set_sort)
  also have "\<dots> = fst ` set G" unfolding ids by simp
  finally have 3: "set (map category_id r) = (\<lambda>d. primary (category d)) ` set M"
    by (simp add: G_def keys_group)
  have 4: "totalAmount g =
           (\<Sum>d\<leftarrow>filter (\<lambda>d. primary (category d) = category_id g) M.
               case amount d of None \<Rightarrow> 0 | Some x \<Rightarrow> \<bar>x\<bar>) \<and>
         count g = length (filter (\<lambda>d. primary (category d) = category_id g) M)"
    if "g \<in> set r" for g
  proof -
    from that obtain k t c where g: "g = \<lparr>category_id = k, totalAmount = t, count = c\<rparr>"
      and kv: "(k, (t, c)) \<in> set G"
      by (auto simp: r mk_def)
    have "fst (t, c) = (\<Sum>d\<leftarrow>filter (\<lambda>d. primary (category d) = k) M.
               case amount d of None \<Rightarrow> 0 | Some x \<Rightarrow> \<bar>x\<bar>)"
      by (rule group_sum [OF _ _ kv [unfolded G_def]])
         (simp_all add: sumAbsAndCount_def split: option.splits prod.splits)
    moreover have "snd (t, c) = (\<Sum>d\<leftarrow>filter (\<lambda>d. primary (category d) = k) M. 1)"
      by (rule group_sum [OF _ _ kv [unfolded G_def]])
         (simp_all add: sumAbsAndCount_def split: option.splits prod.splits)
    ultimately show ?thesis by (simp add: g sum_list_triv)
  qed
  from 1 2 3 4 show ?thesis
    unfolding Let_def M_def [symmetric] r_def [symmetric] by blast
qed

theorem getSpendingByCategory_groups_witness:
  "getSpendingByCategory spendingSample 7 0 1800000000000 =
     [\<lparr>category_id = Some ''Food'', totalAmount = 80, count = 2\<rparr>] \<and>
   (\<Sum>d\<leftarrow>filter (\<lambda>d. primary (category d) = Some ''Food'')
        (filter (\<lambda>d. user d = Some 7 \<and> type d = Some ''expense'' \<and>
                     (\<exists>x. date d = Some x \<and> 0 \<le> x \<and> x \<le> 1800000000000)) spendingSample).
      case amount d of None \<Rightarrow> 0 | Some x \<Rightarrow> \<bar>x\<bar>) = 80"
proof -
  from getSpendingByCategory_groups [of 7 0 1800000000000 spendingSample]
  have "\<forall>g \<in> set [\<lparr>category_id = Some ''Food'', totalAmount = 80, count = 2\<rparr>].
      totalAmount g =
        (\<Sum>d\<leftarrow>filter (\<lambda>d. primary (category d) = category_id g)
            (filter (\<lambda>d. user d = Some 7 \<and> type d = Some ''expense'' \<and>
                     (\<exists>x. date d = Some x \<and> 0 \<le> x \<and> x \<le> 1800000000000)) spendingSample).
          case amount d of None \<Rightarrow> 0 | Some x \<Rightarrow> \<bar>x\<bar>)"
    unfolding Let_def spending_eval by blast
  then show ?thesis using spending_eval by simp
qed

subsection \<open>C4: monthly trends\<close>




subsection \<open>C5: posted-date stamping\<close>

text \<open>
  C5. A save that succeeds sets \<open>postedDate\<close> to the save time when the status is
  \<open>posted\<close> and no posted date was present, and leaves \<open>postedDate\<close> as it was in
  every other case; the status is not touched, so a saved document whose status is
  \<open>posted\<close> has a posted date.
\<close>

theorem save_postedDate:
  "save now t = Inr t' \<Longrightarrow>
     (status t = Some ''posted'' \<and> postedDate t = None \<longrightarrow> postedDate t' = Some now) \<and>
     (\<not> (status t = Some ''posted'' \<and> postedDate t = None) \<longrightarrow> postedDate t' = postedDate t) \<and>
     status t' = status t \<and>
     (status t' = Some ''posted'' \<longrightarrow> postedDate t' \<noteq> None)"
  by (auto simp: save_Inr_iff setPostedDate_def)

theorem save_postedDate_witness:
  "save 5 (groceries\<lparr>status := Some ''posted''\<rparr>) =
     Inr (groceries\<lparr>status := Some ''posted'', postedDate := Some 5, amount := Some (-50)\<rparr>) \<and>
   postedDate (groceries\<lparr>status := Some ''posted'', postedDate := Some 5,
                          amount := Some (-50)\<rparr>) = Some 5 \<and>
   save 5 groceries = Inr (groceries\<lparr>amount := Some (-50)\<rparr>) \<and>
   postedDate (groceries\<lparr>amount := Some (-50)\<rparr>) = postedDate groceries"
proof -
  have "status (groceries\<lparr>status := Some ''posted''\<rparr>) = Some ''posted''"
    "postedDate (groceries\<lparr>status := Some ''posted''\<rparr>) = None"
    "\<not> (status groceries = Some ''posted'' \<and> postedDate groceries = None)"
    by (simp_all add: sample_defs)
  with save_postedDate [OF save_groceries_posted] save_postedDate [OF save_groceries]
  have "postedDate (groceries\<lparr>status := Some ''posted'', postedDate := Some 5,
                          amount := Some (-50)\<rparr>) = Some 5"
    "postedDate (groceries\<lparr>amount := Some (-50)\<rparr>) = postedDate groceries"
    by blast+
  with save_groceries_posted save_groceries show ?thesis by blast
qed

subsection \<open>C6: duplicating a document\<close>

text \<open>
  C6 as stated does not hold. The copy of \<open>bareDoc\<close> is not without an identifier: it
  has the newly generated one. Its currency is the default \<open>USD\<close> although the
  document has none, so the two differ on a field outside the list. Its description is
  \<open>Copy of\<close>, the trimmed form of \<open>Copy of \<close> followed by the empty description.
\<close>

theorem duplicate_identity_not_cleared:
  "ident (snd (duplicate 9 3 2 bareDoc)) = Some 2 \<and>
   currency bareDoc = None \<and> currency (snd (duplicate 9 3 2 bareDoc)) = Some ''USD'' \<and>
   description bareDoc = Some [] \<and>
   description (snd (duplicate 9 3 2 bareDoc)) = Some ''Copy of''"
proof -
  have "trim ''Copy of '' = ''Copy of''" by code_simp
  then show ?thesis
    by (simp add: duplicate_def newTransaction_def applyDefaults_def applySetters_def
        orDefault_def bareDoc_def templateString_def)
qed

text \<open>
  C6, amended. For every transaction record \<open>t\<close>, \<open>duplicate\<close> leaves \<open>t\<close> as it is
  and returns a copy with a newly generated identifier (different from that of \<open>t\<close>
  when the generated one is), the current time as date, status \<open>pending\<close>, the
  description \<open>Copy of \<close> followed by that of \<open>t\<close> with surrounding whitespace
  trimmed (which leaves it as it is when the description of \<open>t\<close> is trimmed and not
  empty), no attachments, empty notes, not reconciled and no reconciliation date.
  Every other field is the field of \<open>t\<close> as the constructor takes it: copied as it is
  where the path has neither setter nor default, passed through the setter and the
  default where it has one. So for a record that is as the constructor leaves it
  (unchanged by the setters, currency and interval present) the copy agrees with \<open>t\<close>
  on every field except the eight. Every created document is such a record
  (\<open>created_is_document\<close>).
\<close>

theorem duplicate_fields:
  "fst (duplicate now c i t) = t \<and>
   ident (snd (duplicate now c i t)) = Some i \<and>
   (ident t \<noteq> Some i \<longrightarrow> ident (snd (duplicate now c i t)) \<noteq> ident t) \<and>
   date (snd (duplicate now c i t)) = Some now \<and>
   status (snd (duplicate now c i t)) = Some ''pending'' \<and>
   description (snd (duplicate now c i t)) =
     Some (trim (''Copy of '' @ templateString (description t))) \<and>
   (\<forall>d. description t = Some d \<and> d \<noteq> [] \<and> trim d = d \<longrightarrow>
      description (snd (duplicate now c i t)) = Some (''Copy of '' @ d)) \<and>
   attachments (snd (duplicate now c i t)) = [] \<and>
   notes (snd (duplicate now c i t)) = Some [] \<and>
   isReconciled (snd (duplicate now c i t)) = False \<and>
   reconciliationDate (snd (duplicate now c i t)) = None \<and>
   user (snd (duplicate now c i t)) = user t \<and>
   account (snd (duplicate now c i t)) = account t \<and>
   plaidTransactionId (snd (duplicate now c i t)) = plaidTransactionId t \<and>
   amount (snd (duplicate now c i t)) = amount t \<and>
   postedDate (snd (duplicate now c i t)) = postedDate t \<and>
   split (snd (duplicate now c i t)) = split t \<and>
   location (snd (duplicate now c i t)) = location t \<and>
   metadata (snd (duplicate now c i t)) = metadata t \<and>
   isHidden (snd (duplicate now c i t)) = isHidden t \<and>
   isArchived (snd (duplicate now c i t)) = isArchived t \<and>
   currency (snd (duplicate now c i t)) = orDefault ''USD'' (map_option toUpperCase (currency t)) \<and>
   type (snd (duplicate now c i t)) = map_option toLowerCase (type t) \<and>
   category (snd (duplicate now c i t)) =
     (category t)\<lparr>primary := map_option trim (primary (category t)),
                   secondary := map_option trim (secondary (category t))\<rparr> \<and>
   merchant (snd (duplicate now c i t)) =
     (merchant t)\<lparr>merchant_name := map_option trim (merchant_name (merchant t))\<rparr> \<and>
   tags (snd (duplicate now c i t)) = map castTag (tags t) \<and>
   recurring (snd (duplicate now c i t)) =
     (recurring t)\<lparr>frequency := map_option toLowerCase (frequency (recurring t)),
                    interval := orDefault 1 (interval (recurring t))\<rparr> \<and>
   (applySetters t = t \<and> currency t \<noteq> None \<and> interval (recurring t) \<noteq> None \<longrightarrow>
      snd (duplicate now c i t) =
        t\<lparr>ident := Some i, date := Some now, status := Some ''pending'',
          description := Some (trim (''Copy of '' @ templateString (description t))),
          attachments := [], notes := Some [], isReconciled := False,
          reconciliationDate := None\<rparr>)"
proof -
  let ?c = "snd (duplicate now c i t)"
  have p: "toLowerCase ''pending'' = ''pending''" by (rule string_samples)
  have fields: "fst (duplicate now c i t) = t" "ident ?c = Some i" "date ?c = Some now"
    "status ?c = Some ''pending''"
    "description ?c = Some (trim (''Copy of '' @ templateString (description t)))"
    "attachments ?c = []" "notes ?c = Some []" "isReconciled ?c = False"
    "reconciliationDate ?c = None" "user ?c = user t" "account ?c = account t"
    "plaidTransactionId ?c = plaidTransactionId t" "amount ?c = amount t"
    "postedDate ?c = postedDate t" "split ?c = split t" "location ?c = location t"
    "metadata ?c = metadata t" "isHidden ?c = isHidden t" "isArchived ?c = isArchived t"
    "currency ?c = orDefault ''USD'' (map_option toUpperCase (currency t))"
    "type ?c = map_option toLowerCase (type t)"
    "category ?c = (category t)\<lparr>primary := map_option trim (primary (category t)),
                   secondary := map_option trim (secondary (category t))\<rparr>"
    "merchant ?c = (merchant t)\<lparr>merchant_name := map_option trim (merchant_name (merchant t))\<rparr>"
    "tags ?c = map castTag (tags t)"
    "recurring ?c = (recurring t)\<lparr>frequency := map_option toLowerCase (frequency (recurring t)),
                    interval := orDefault 1 (interval (recurring t))\<rparr>"
    by (simp_all add: duplicate_def newTransaction_def applyDefaults_def applySetters_def p)
  have fresh: "ident t \<noteq> Some i \<longrightarrow> ident ?c \<noteq> ident t"
    using fields(2) by auto
  have descr: "\<forall>d. description t = Some d \<and> d \<noteq> [] \<and> trim d = d \<longrightarrow>
      description ?c = Some (''Copy of '' @ d)"
  proof (intro allI impI)
    fix d assume d: "description t = Some d \<and> d \<noteq> [] \<and> trim d = d"
    then have "trim (''Copy of '' @ d) = ''Copy of '' @ d" by (intro copy_of_trimmed) simp_all
    with d show "description ?c = Some (''Copy of '' @ d)"
      by (simp add: fields(5) templateString_def)
  qed
  have whole: "applySetters t = t \<and> currency t \<noteq> None \<and> interval (recurring t) \<noteq> None \<longrightarrow>
      ?c = t\<lparr>ident := Some i, date := Some now, status := Some ''pending'',
          description := Some (trim (''Copy of '' @ templateString (description t))),
          attachments := [], notes := Some [], isReconciled := False,
          reconciliationDate := None\<rparr>"
  proof
    assume h: "applySetters t = t \<and> currency t \<noteq> None \<and> interval (recurring t) \<noteq> None"
    then obtain cur iv where cur: "currency t = Some cur"
      and iv: "interval (recurring t) = Some iv" by auto
    from h have n: "newTransaction now c t =
        t\<lparr>ident := orDefault c (ident t), date := orDefault now (date t),
          status := orDefault ''pending'' (status t),
          attachments := map (\<lambda>a. a\<lparr>uploadedAt := orDefault now (uploadedAt a)\<rparr>)
                           (attachments t)\<rparr>"
      by (simp add: newTransaction_def applyDefaults_def cur iv orDefault_def)
    show "?c = t\<lparr>ident := Some i, date := Some now, status := Some ''pending'',
          description := Some (trim (''Copy of '' @ templateString (description t))),
          attachments := [], notes := Some [], isReconciled := False,
          reconciliationDate := None\<rparr>"
      by (simp add: duplicate_def n p)
  qed
  from fields fresh descr whole show ?thesis by (intro conjI)
qed

theorem duplicate_fields_witness:
  "snd (duplicate 9 3 2 (importedDoc 1)) =
     (importedDoc 1)\<lparr>ident := Some 2, date := Some 9, status := Some ''pending'',
       description := Some ''Copy of Groceries'', attachments := [], notes := Some [],
       isReconciled := False, reconciliationDate := None\<rparr> \<and>
   ident (snd (duplicate 9 3 2 (importedDoc 1))) \<noteq> ident (importedDoc 1) \<and>
   description (snd (duplicate 9 3 2 (importedDoc 1))) = Some ''Copy of Groceries'' \<and>
   fst (duplicate 9 3 2 (importedDoc 1)) = importedDoc 1"
proof -
  note w = duplicate_fields [of 9 3 2 "importedDoc 1"]
  from created_is_document [OF create_bankImport_1]
  have s: "applySetters (importedDoc 1) = importedDoc 1 \<and> currency (importedDoc 1) \<noteq> None \<and>
      interval (recurring (importedDoc 1)) \<noteq> None"
    by blast
  have d: "description (importedDoc 1) = Some ''Groceries'' \<and> ''Groceries'' \<noteq> [] \<and>
      trim ''Groceries'' = ''Groceries''"
    by (simp add: importedDoc_def bankImport_def sample_defs string_samples)
  have i: "ident (importedDoc 1) \<noteq> Some 2" by simp
  from w s have 1: "snd (duplicate 9 3 2 (importedDoc 1)) =
      (importedDoc 1)\<lparr>ident := Some 2, date := Some 9, status := Some ''pending'',
        description := Some (trim (''Copy of '' @ templateString (description (importedDoc 1)))),
        attachments := [], notes := Some [], isReconciled := False,
        reconciliationDate := None\<rparr>"
    by blast
  from w d have 2: "description (snd (duplicate 9 3 2 (importedDoc 1))) =
      Some (''Copy of '' @ ''Groceries'')"
    by blast
  from w have 3: "description (snd (duplicate 9 3 2 (importedDoc 1))) =
      Some (trim (''Copy of '' @ templateString (description (importedDoc 1))))"
    by blast
  from w i have 4: "ident (snd (duplicate 9 3 2 (importedDoc 1))) \<noteq> ident (importedDoc 1)"
    by blast
  from w have 5: "fst (duplicate 9 3 2 (importedDoc 1)) = importedDoc 1" by blast
  from 2 3 have "trim (''Copy of '' @ templateString (description (importedDoc 1))) =
      ''Copy of Groceries''" by simp
  with 1 2 4 5 show ?thesis by simp
qed

subsection \<open>C7: tags\<close>

text \<open>
  C7. The claim asks that \<open>addTag\<close> store the lower-cased tag once and that
  \<open>removeTag\<close> remove it. The code tests and filters with the lower-cased tag as it
  was given, but the array stores the pushed tag trimmed. For the tag \<open>" A"\<close> on a
  document without tags: the first \<open>addTag\<close> stores \<open>"a"\<close>; the second does not find
  \<open>" a"\<close> among the tags and stores \<open>"a"\<close> again; \<open>removeTag\<close> filters on
  \<open>" a"\<close> and leaves \<open>"a"\<close> where it is. For a tag without surrounding whitespace
  the code does what the claim says: \<open>Food\<close> and then \<open>food\<close> leave the single tag
  \<open>food\<close>, which \<open>removeTag\<close> of \<open>FOOD\<close> takes away.
\<close>

theorem addTag_padded_twice:
  "tags groceries = [] \<and>
   tags (fst (addTag 5 '' A'' groceries)) = [''a''] \<and>
   tags (fst (addTag 6 '' A'' (fst (addTag 5 '' A'' groceries)))) = [''a'', ''a''] \<and>
   tags (fst (removeTag 7 '' A'' (fst (addTag 5 '' A'' groceries)))) = [''a''] \<and>
   tags (fst (addTag 6 ''food'' (fst (addTag 5 ''Food'' groceries)))) = [''food''] \<and>
   tags (fst (removeTag 7 ''FOOD'' (fst (addTag 5 ''Food'' groceries)))) = []"
proof -
  have 1: "tags (fst (addTag 5 '' A'' groceries)) = [''a'']"
    by (simp add: addTag_def castTag_def tags_groceries string_samples)
  have 2: "tags (fst (addTag 6 '' A'' (fst (addTag 5 '' A'' groceries)))) = [''a'', ''a'']"
    by (simp add: addTag_def [of 6] castTag_def 1 string_samples)
  have 3: "tags (fst (removeTag 7 '' A'' (fst (addTag 5 '' A'' groceries)))) = [''a'']"
    by (simp add: removeTag_def 1 string_samples)
  have 4: "tags (fst (addTag 5 ''Food'' groceries)) = [''food'']"
    by (simp add: addTag_def castTag_def tags_groceries string_samples)
  have 5: "tags (fst (addTag 6 ''food'' (fst (addTag 5 ''Food'' groceries)))) = [''food'']"
    by (simp add: addTag_def [of 6] castTag_def 4 string_samples)
  have 6: "tags (fst (removeTag 7 ''FOOD'' (fst (addTag 5 ''Food'' groceries)))) = []"
    by (simp add: removeTag_def 4 string_samples)
  from tags_groceries 1 2 3 5 6 show ?thesis by (intro conjI)
qed

subsection \<open>C8: validation errors\<close>

text \<open>
  C8 as stated does not hold: a description of 201 characters that ends in a space is
  trimmed to 200 characters before validation, and \<open>create\<close> succeeds.
\<close>

theorem padded_description_accepted:
  "description padded = Some (replicate 200 (CHR ''a'') @ '' '') \<and>
   length (replicate 200 (CHR ''a'') @ '' '') = 201 \<and>
   create 5 [] padded = Inr ([paddedDoc], paddedDoc)"
  using create_padded by (simp add: padded_def)

text \<open>
  C8, amended. \<open>create\<close> fails with a ValidationError for every object whose amount
  is 0 and for every object whose description, once trimmed, has more than 200
  characters. The error is the whole list that validation computed for the document,
  which holds the entry of each violated constraint of the schema and nothing else.
\<close>

theorem create_rejects:
  "(amount obj = Some 0 \<or> (\<exists>s. description obj = Some s \<and> 200 < length (trim s)) \<longrightarrow>
     (\<exists>es. create now coll obj = Inl (ValidationError es) \<and>
        es = validate (newTransaction now (newObjectId coll) obj) \<and>
        (amount obj = Some 0 \<longrightarrow>
           (''amount'', UserDefined, Some ''Amount cannot be zero'') \<in> set es) \<and>
        ((\<exists>s. description obj = Some s \<and> 200 < length (trim s)) \<longrightarrow>
           (''description'', Maxlength, Some ''Description cannot exceed 200 characters'')
             \<in> set es))) \<and>
   set (validate t) =
     {x. (user t = None \<and> x = (''user'', Required, Some ''User ID is required'')) \<or>
         (account t = None \<and> x = (''account'', Required, Some ''Account ID is required'')) \<or>
         (amount t = None \<and> x = (''amount'', Required, Some ''Amount is required'')) \<or>
         (amount t = Some 0 \<and> x = (''amount'', UserDefined, Some ''Amount cannot be zero'')) \<or>
         ((\<exists>s. currency t = Some s \<and>
               s \<notin> set [''USD'', ''EUR'', ''GBP'', ''CAD'', ''AUD'', ''JPY'', ''CHF'']) \<and>
            x = (''currency'', Enum, None)) \<or>
         ((type t = None \<or> type t = Some []) \<and>
            x = (''type'', Required, Some ''Transaction type is required'')) \<or>
         ((\<exists>s. type t = Some s \<and> s \<noteq> [] \<and> s \<notin> set [''income'', ''expense'', ''transfer'']) \<and>
            x = (''type'', Enum, None)) \<or>
         ((primary (category t) = None \<or> primary (category t) = Some []) \<and>
            x = (''category.primary'', Required, Some ''Primary category is required'')) \<or>
         ((description t = None \<or> description t = Some []) \<and>
            x = (''description'', Required, Some ''Description is required'')) \<or>
         ((\<exists>s. description t = Some s \<and> 200 < length s) \<and>
            x = (''description'', Maxlength, Some ''Description cannot exceed 200 characters'')) \<or>
         ((\<exists>s. merchant_name (merchant t) = Some s \<and> 100 < length s) \<and>
            x = (''merchant.name'', Maxlength,
                 Some ''Merchant name cannot exceed 100 characters'')) \<or>
         (date t = None \<and> x = (''date'', Required, Some ''Transaction date is required'')) \<or>
         ((\<exists>s. status t = Some s \<and> s \<notin> set [''pending'', ''posted'', ''cancelled'', ''failed'']) \<and>
            x = (''status'', Enum, None)) \<or>
         ((\<exists>s. notes t = Some s \<and> 500 < length s) \<and>
            x = (''notes'', Maxlength, Some ''Notes cannot exceed 500 characters'')) \<or>
         ((\<exists>s. frequency (recurring t) = Some s \<and>
               s \<notin> set [''daily'', ''weekly'', ''monthly'', ''yearly'']) \<and>
            x = (''recurring.frequency'', Enum, None)) \<or>
         ((\<exists>y. interval (recurring t) = Some y \<and> y < 1) \<and>
            x = (''recurring.interval'', Min, None))}"
proof (intro conjI impI)
  let ?d = "newTransaction now (newObjectId coll) obj"
  assume h: "amount obj = Some 0 \<or> (\<exists>s. description obj = Some s \<and> 200 < length (trim s))"
  have a: "amount obj = Some 0 \<longrightarrow>
      (''amount'', UserDefined, Some ''Amount cannot be zero'') \<in> set (validate ?d)"
    by (simp add: amount_zero_error)
  have b: "(\<exists>s. description obj = Some s \<and> 200 < length (trim s)) \<longrightarrow>
      (''description'', Maxlength, Some ''Description cannot exceed 200 characters'')
        \<in> set (validate ?d)"
    by (auto simp: description_long_error)
  from h a b have "validate ?d \<noteq> []" by auto
  from create_Inl_validation [OF this] a b
  show "\<exists>es. create now coll obj = Inl (ValidationError es) \<and>
        es = validate (newTransaction now (newObjectId coll) obj) \<and>
        (amount obj = Some 0 \<longrightarrow>
           (''amount'', UserDefined, Some ''Amount cannot be zero'') \<in> set es) \<and>
        ((\<exists>s. description obj = Some s \<and> 200 < length (trim s)) \<longrightarrow>
           (''description'', Maxlength, Some ''Description cannot exceed 200 characters'')
             \<in> set es)"
    by blast
qed (rule set_validate_eq)

theorem create_rejects_witness:
  "amount rejected = Some 0 \<and> description rejected = Some (replicate 201 (CHR ''a'')) \<and>
   create 5 [] rejected =
     Inl (ValidationError
       [(''amount'', UserDefined, Some ''Amount cannot be zero''),
        (''description'', Maxlength, Some ''Description cannot exceed 200 characters'')])"
proof -
  have a: "amount rejected = Some 0" and d: "description rejected = Some (replicate 201 (CHR ''a''))"
    by (simp_all add: rejected_def)
  from create_rejects [of rejected 5 "[]" rejected] a
  have "create 5 [] rejected = Inl (ValidationError (validate (newTransaction 5 (newObjectId []) rejected)))"
    by blast
  with a d show ?thesis by (simp only: new_rejected simp_thms)
qed

subsection \<open>C9: the order of the pre-save hooks\<close>


subsection \<open>C10: the formatted amount\<close>

text \<open>
  C10. The formatted amount begins with \<open>+\<close> exactly when the type is \<open>income\<close>
  and with \<open>-\<close> for every other type, a transfer with a positive amount included;
  what follows the sign is the currency, a space and the absolute value of the amount
  printed with two decimals.
\<close>

theorem formattedAmount_sign:
  "(type t = Some ''income'' \<longrightarrow> take 1 (formattedAmount f t) = ''+'') \<and>
   (type t \<noteq> Some ''income'' \<longrightarrow> take 1 (formattedAmount f t) = ''-'') \<and>
   (amount t = Some a \<longrightarrow>
      drop 1 (formattedAmount f t) = templateString (currency t) @ '' '' @ f \<bar>a\<bar> 2)"
  by (simp add: formattedAmount_def)

theorem formattedAmount_sign_witness:
  "formattedAmount toFixedDecimal transferIn = ''-USD 25.00'' \<and>
   formattedAmount toFixedDecimal salary = ''+USD 1000.00''"
proof -
  have t: "type transferIn \<noteq> Some ''income''" "amount transferIn = Some 25"
    "currency transferIn = Some ''USD''"
    by (simp_all add: transferIn_def)
  have s: "type salary = Some ''income''" "amount salary = Some 1000"
    "currency salary = Some ''USD''"
    by (simp_all add: salary_def)
  from formattedAmount_sign [of transferIn toFixedDecimal 25] t
  have "take 1 (formattedAmount toFixedDecimal transferIn) = ''-''"
    "drop 1 (formattedAmount toFixedDecimal transferIn) = ''USD 25.00''"
    by (simp_all add: templateString_def toFixed_samples)
  then have 1: "formattedAmount toFixedDecimal transferIn = ''-USD 25.00''"
    by (rule take_drop_1)
  from formattedAmount_sign [of salary toFixedDecimal 1000] s
  have "take 1 (formattedAmount toFixedDecimal salary) = ''+''"
    "drop 1 (formattedAmount toFixedDecimal salary) = ''USD 1000.00''"
    by (simp_all add: templateString_def toFixed_samples)
  then have 2: "formattedAmount toFixedDecimal salary = ''+USD 1000.00''"
    by (rule take_drop_1)
  from 1 2 show ?thesis ..
qed

end
